theory Spec2Isabelle
  imports Complex_Main "HOL-Library.Multiset" "HOL-Library.Sublist" "HOL-Library.Word"
begin

section \<open>Geometry model\<close>

text \<open>
  The dictionaries of \<^verbatim>\<open>PolygonDictionaryImplementations.cpp\<close> work on the members
  \<^verbatim>\<open>polygons\<close> and \<^verbatim>\<open>areas\<close> of their base class and on the geometry library's
  \<^verbatim>\<open>covered_by\<close>. Coordinates and areas are C++ doubles; the model reads a finite double
  as the real number it denotes, on which the comparison \<^verbatim>\<open><\<close> of the code is the order
  of the reals (NaN, on which \<^verbatim>\<open><\<close> is no order, is outside the model).

  The locators below are generic in the geometry type \<open>'g\<close> and take the containment
  primitive as a parameter. The concrete geometry of this section is used wherever a
  statement is evaluated on explicit polygons.
\<close>

type_synonym Point = "real \<times> real"

type_synonym Ring = "Point list"

type_synonym SimplePolygon = "Ring \<times> Ring list"

type_synonym MultiPolygon = "SimplePolygon list"

definition ring_edges :: "Ring \<Rightarrow> (Point \<times> Point) list" where
  \<comment> \<open>Modelled from the spec: a ring is implicitly closed, its last point joined to its first.\<close>
  "ring_edges r = (case r of [] \<Rightarrow> [] | p # ps \<Rightarrow> zip r (ps @ [p]))"

definition on_segment :: "Point \<Rightarrow> Point \<times> Point \<Rightarrow> bool" where
  "on_segment p e =
     (case p of (px, py) \<Rightarrow> case e of ((ax, ay), (bx, by)) \<Rightarrow>
        (bx - ax) * (py - ay) - (px - ax) * (by - ay) = 0 \<and>
        min ax bx \<le> px \<and> px \<le> max ax bx \<and> min ay by \<le> py \<and> py \<le> max ay by)"

definition ray_crosses :: "Point \<Rightarrow> Point \<times> Point \<Rightarrow> bool" where
  \<comment> \<open>The horizontal ray from \<open>p\<close> towards larger \<open>x\<close> meets the edge (half-open in \<open>y\<close>).\<close>
  "ray_crosses p e =
     (case p of (px, py) \<Rightarrow> case e of ((ax, ay), (bx, by)) \<Rightarrow>
        ((py < ay) \<noteq> (py < by)) \<and>
        (let d = (bx - ax) * (py - ay) - (px - ax) * (by - ay)
         in if ay < by then 0 < d else d < 0))"

definition on_boundary :: "Point \<Rightarrow> Ring \<Rightarrow> bool" where
  "on_boundary p r = list_ex (on_segment p) (ring_edges r)"

definition inside_ring :: "Point \<Rightarrow> Ring \<Rightarrow> bool" where
  "inside_ring p r = odd (length (filter (ray_crosses p) (ring_edges r)))"

definition covered_by_ring :: "Point \<Rightarrow> Ring \<Rightarrow> bool" where
  "covered_by_ring p r = (on_boundary p r \<or> inside_ring p r)"

definition within_ring :: "Point \<Rightarrow> Ring \<Rightarrow> bool" where
  "within_ring p r = (inside_ring p r \<and> \<not> on_boundary p r)"

definition covered_by_polygon :: "Point \<Rightarrow> SimplePolygon \<Rightarrow> bool" where
  "covered_by_polygon p poly =
     (case poly of (outer, holes) \<Rightarrow> covered_by_ring p outer \<and> \<not> list_ex (within_ring p) holes)"

definition covered_by :: "Point \<Rightarrow> MultiPolygon \<Rightarrow> bool" where
  \<comment> \<open>Modelled from the spec: the external containment primitive \<^verbatim>\<open>covered_by\<close>, ray casting
      with boundary points counted as covered; a multi-polygon is the union of its parts and
      the holes of a part are taken out of it.\<close>
  "covered_by p g = list_ex (covered_by_polygon p) g"

definition shoelace :: "Ring \<Rightarrow> real" where
  "shoelace r = (\<Sum>e \<leftarrow> ring_edges r. case e of ((ax, ay), (bx, by)) \<Rightarrow> ax * by - bx * ay) / 2"

definition polygon_area :: "SimplePolygon \<Rightarrow> real" where
  "polygon_area poly =
     (case poly of (outer, holes) \<Rightarrow> \<bar>shoelace outer\<bar> - (\<Sum>h \<leftarrow> holes. \<bar>shoelace h\<bar>))"

definition area :: "MultiPolygon \<Rightarrow> real" where
  \<comment> \<open>Modelled from the spec: the area of an entry, computed by the base class (absent from the
      sources at hand): the absolute shoelace sum of the outer ring minus those of the
      holes, accumulated over the parts.\<close>
  "area g = (\<Sum>poly \<leftarrow> g. polygon_area poly)"

section \<open>The polygon set\<close>

text \<open>
  The members of the base class \<^verbatim>\<open>IPolygonDictionary\<close> the locators read: the dense vectors
  \<^verbatim>\<open>polygons\<close> and \<^verbatim>\<open>areas\<close>, and the external identifier of each slot.
\<close>

record 'g PolygonSet =
  polygons :: "'g list"
  areas :: "real list"
  ids :: "nat list"

definition well_formed :: "'g PolygonSet \<Rightarrow> bool" where
  \<comment> \<open>The vectors are parallel: the loops of the code index \<^verbatim>\<open>areas\<close> by a slot of
      \<^verbatim>\<open>polygons\<close>, which C++ defines only then.\<close>
  "well_formed d \<longleftrightarrow>
     length (areas d) = length (polygons d) \<and> length (ids d) = length (polygons d)"

definition load :: "(MultiPolygon \<times> nat) list \<Rightarrow> MultiPolygon PolygonSet" where
  \<comment> \<open>Modelled from the spec: the build step of the base class, one slot per entry in input
      order, with the area computed once.\<close>
  "load entries =
     \<lparr>polygons = map fst entries, areas = map (area \<circ> fst) entries, ids = map snd entries\<rparr>"

section \<open>The linear locator\<close>

text \<open>
  \<^verbatim>\<open>SimplePolygonDictionary::find\<close>. The loop state is \<^verbatim>\<open>(found, id, area)\<close>; \<open>find_body\<close> is
  one iteration at slot \<open>i\<close>. The reference parameter \<^verbatim>\<open>id\<close> is passed in as \<open>id_in\<close> and
  returned beside the result.
\<close>

definition find_body ::
  "(Point \<Rightarrow> 'g \<Rightarrow> bool) \<Rightarrow> 'g PolygonSet \<Rightarrow> Point \<Rightarrow> nat \<Rightarrow> bool \<times> nat \<times> real \<Rightarrow> bool \<times> nat \<times> real"
where
  "find_body cb d point i s =
     (case s of (found, ident, cur_area) \<Rightarrow>
        if cb point (polygons d ! i) then
          (let new_area = areas d ! i in
           if \<not> found \<or> new_area < cur_area then (True, i, new_area)
           else (found, ident, cur_area))
        else (found, ident, cur_area))"

definition SimplePolygonDictionary_find ::
  "(Point \<Rightarrow> 'g \<Rightarrow> bool) \<Rightarrow> 'g PolygonSet \<Rightarrow> Point \<Rightarrow> nat \<Rightarrow> bool \<times> nat"
where
  "SimplePolygonDictionary_find cb d point id_in =
     (case fold (find_body cb d point) [0..<length (polygons d)] (False, id_in, 0) of
        (found, ident, cur_area) \<Rightarrow> (found, ident))"

definition covers :: "(Point \<Rightarrow> 'g \<Rightarrow> bool) \<Rightarrow> 'g PolygonSet \<Rightarrow> Point \<Rightarrow> nat \<Rightarrow> bool" where
  \<comment> \<open>Slot \<open>j\<close> exists and its geometry covers the point.\<close>
  "covers cb d p j \<longleftrightarrow> j < length (polygons d) \<and> cb p (polygons d ! j)"

definition wins :: "(Point \<Rightarrow> 'g \<Rightarrow> bool) \<Rightarrow> 'g PolygonSet \<Rightarrow> Point \<Rightarrow> nat \<Rightarrow> bool" where
  \<comment> \<open>The tie-break rule in the spec's words: slot \<open>i\<close> covers the point, every other covering
      slot has a larger area, or the same area and a later position.\<close>
  "wins cb d p i \<longleftrightarrow>
     covers cb d p i \<and>
     (\<forall>j \<in> {0..<length (polygons d)}. cb p (polygons d ! j) \<longrightarrow>
        areas d ! i < areas d ! j \<or> (areas d ! i = areas d ! j \<and> i \<le> j))"

definition find_inv ::
  "(Point \<Rightarrow> 'g \<Rightarrow> bool) \<Rightarrow> 'g PolygonSet \<Rightarrow> Point \<Rightarrow> nat \<Rightarrow> nat \<Rightarrow> bool \<times> nat \<times> real \<Rightarrow> bool"
where
  \<comment> \<open>The loop invariant of the linear scan after the slots below \<open>k\<close>.\<close>
  "find_inv cb d p id_in k s =
     (case s of (found, ident, cur_area) \<Rightarrow>
        (found \<longleftrightarrow> (\<exists>j \<in> {0..<k}. cb p (polygons d ! j))) \<and>
        (\<not> found \<longrightarrow> ident = id_in) \<and>
        (found \<longrightarrow> ident < k \<and> cb p (polygons d ! ident) \<and> cur_area = areas d ! ident \<and>
           (\<forall>j \<in> {0..<k}. cb p (polygons d ! j) \<longrightarrow>
              areas d ! ident < areas d ! j \<or> (areas d ! ident = areas d ! j \<and> ident \<le> j))))"

section \<open>Rectangles\<close>

text \<open>
  The bounding boxes and cell rectangles of the grid index. The grid's own code is not among
  the sources at hand; rectangles are closed and axis-parallel, as section 4.3 of the
  specification uses them.
\<close>

record Rect =
  min_x :: real
  min_y :: real
  max_x :: real
  max_y :: real

definition empty_rect :: Rect where
  \<comment> \<open>The bounding rectangle of nothing: an inverted box, which contains no point.\<close>
  "empty_rect = \<lparr>min_x = 1, min_y = 1, max_x = 0, max_y = 0\<rparr>"

definition rect_is_empty :: "Rect \<Rightarrow> bool" where
  "rect_is_empty r \<longleftrightarrow> max_x r < min_x r \<or> max_y r < min_y r"

definition rect_contains :: "Rect \<Rightarrow> real \<Rightarrow> real \<Rightarrow> bool" where
  \<comment> \<open>Modelled from the spec: the point lies within the rectangle, its border included.\<close>
  "rect_contains r x y \<longleftrightarrow> min_x r \<le> x \<and> x \<le> max_x r \<and> min_y r \<le> y \<and> y \<le> max_y r"

definition rect_strictly_contains :: "Rect \<Rightarrow> real \<Rightarrow> real \<Rightarrow> bool" where
  \<comment> \<open>The point lies strictly inside the rectangle.\<close>
  "rect_strictly_contains r x y \<longleftrightarrow> min_x r < x \<and> x < max_x r \<and> min_y r < y \<and> y < max_y r"

definition rect_intersects :: "Rect \<Rightarrow> Rect \<Rightarrow> bool" where
  \<comment> \<open>Modelled from the spec: the two closed rectangles share a point.\<close>
  "rect_intersects a b \<longleftrightarrow>
     max (min_x a) (min_x b) \<le> min (max_x a) (max_x b) \<and>
     max (min_y a) (min_y b) \<le> min (max_y a) (max_y b)"

definition rect_union :: "Rect \<Rightarrow> Rect \<Rightarrow> Rect" where
  \<comment> \<open>The smallest rectangle around both; an empty rectangle adds nothing.\<close>
  "rect_union a b =
     (if rect_is_empty a then b
      else if rect_is_empty b then a
      else \<lparr>min_x = min (min_x a) (min_x b), min_y = min (min_y a) (min_y b),
            max_x = max (max_x a) (max_x b), max_y = max (max_y a) (max_y b)\<rparr>)"

definition bounding_rect :: "Rect list \<Rightarrow> Rect" where
  \<comment> \<open>Modelled from the spec: the bounding rectangle of the union of all bounding boxes.\<close>
  "bounding_rect bs = fold (\<lambda>b acc. rect_union acc b) bs empty_rect"

definition envelope :: "MultiPolygon \<Rightarrow> Rect" where
  \<comment> \<open>Modelled from the spec: the bounding box of a geometry of the concrete model, the
      smallest rectangle around the points of its rings.\<close>
  "envelope g =
     bounding_rect
       (map (\<lambda>p. \<lparr>min_x = fst p, min_y = snd p, max_x = fst p, max_y = snd p\<rparr>)
          (concat (map (\<lambda>poly. fst poly @ concat (snd poly)) g)))"

definition mid_x :: "Rect \<Rightarrow> real" where
  "mid_x r = (min_x r + max_x r) / 2"

definition mid_y :: "Rect \<Rightarrow> real" where
  "mid_y r = (min_y r + max_y r) / 2"

definition quadrant :: "Rect \<Rightarrow> bool \<Rightarrow> bool \<Rightarrow> Rect" where
  \<comment> \<open>Modelled from the spec: one of the four equal quadrants of a cell's rectangle, the upper
      half in \<open>x\<close> when \<open>hx\<close>, in \<open>y\<close> when \<open>hy\<close>.\<close>
  "quadrant r hx hy =
     \<lparr>min_x = (if hx then mid_x r else min_x r), min_y = (if hy then mid_y r else min_y r),
      max_x = (if hx then max_x r else mid_x r), max_y = (if hy then max_y r else mid_y r)\<rparr>"

section \<open>The grid index\<close>

text \<open>
  The class of the member \<^verbatim>\<open>grid\<close> (its constructor, \<^verbatim>\<open>init\<close> and \<^verbatim>\<open>find\<close>) is declared in a
  header that is not among the sources at hand, as are \<^verbatim>\<open>kMinIntersections\<close> and
  \<^verbatim>\<open>kMaxDepth\<close>. The definitions of this section follow section 4.3 of the specification.
\<close>

datatype Cell = Leaf Rect "nat list" | Node Rect Cell Cell Cell Cell

fun cell_rect :: "Cell \<Rightarrow> Rect" where
  "cell_rect (Leaf r polygon_ids) = r"
| "cell_rect (Node r c0 c1 c2 c3) = r"

function build_cell :: "Rect list \<Rightarrow> nat list \<Rightarrow> nat \<Rightarrow> nat \<Rightarrow> nat \<Rightarrow> Rect \<Rightarrow> Cell" where
  \<comment> \<open>Modelled from the spec: steps 2 and 3 of the construction. A cell is split when more
      than \<open>min_intersections\<close> bounding boxes meet its rectangle and its depth is below
      \<open>max_depth\<close>; a leaf keeps the slots of the ordering whose boxes meet its rectangle.\<close>
  "build_cell boxes ordered_slots min_intersections max_depth depth r =
     (let candidates = filter (\<lambda>i. rect_intersects (boxes ! i) r) ordered_slots in
      if min_intersections < length candidates \<and> depth < max_depth then
        Node r
          (build_cell boxes ordered_slots min_intersections max_depth (Suc depth) (quadrant r False False))
          (build_cell boxes ordered_slots min_intersections max_depth (Suc depth) (quadrant r False True))
          (build_cell boxes ordered_slots min_intersections max_depth (Suc depth) (quadrant r True False))
          (build_cell boxes ordered_slots min_intersections max_depth (Suc depth) (quadrant r True True))
      else Leaf r candidates)"
  by pat_completeness auto

termination
  by (relation "measure (\<lambda>(boxes, ordered_slots, min_intersections, max_depth, depth, r). max_depth - depth)")
     auto

fun Cell_find :: "Cell \<Rightarrow> real \<Rightarrow> real \<Rightarrow> nat list" where
  \<comment> \<open>Modelled from the spec: the descent to the leaf whose rectangle contains the point;
      the result is the leaf's candidate list.\<close>
  "Cell_find (Leaf r polygon_ids) x y = polygon_ids"
| "Cell_find (Node r c0 c1 c2 c3) x y =
     (if x < mid_x r then (if y < mid_y r then Cell_find c0 x y else Cell_find c1 x y)
      else (if y < mid_y r then Cell_find c2 x y else Cell_find c3 x y))"

fun leaves :: "Cell \<Rightarrow> (Rect \<times> nat list) list" where
  "leaves (Leaf r polygon_ids) = [(r, polygon_ids)]"
| "leaves (Node r c0 c1 c2 c3) = leaves c0 @ leaves c1 @ leaves c2 @ leaves c3"

record GridRoot =
  grid_min_intersections :: nat
  grid_max_depth :: nat
  grid_boxes :: "Rect list"
  grid_root :: Cell

definition GridRoot_new :: "nat \<Rightarrow> nat \<Rightarrow> ('g \<Rightarrow> Rect) \<Rightarrow> 'g list \<Rightarrow> GridRoot" where
  \<comment> \<open>Modelled from the spec: the constructor \<^verbatim>\<open>grid(kMinIntersections, kMaxDepth, polygons)\<close>
      records the parameters and the bounding box of every polygon; before \<^verbatim>\<open>init\<close> the tree
      is the single leaf without candidates. \<open>env\<close> is the bounding-box primitive.\<close>
  "GridRoot_new min_intersections max_depth env polys =
     \<lparr>grid_min_intersections = min_intersections, grid_max_depth = max_depth,
      grid_boxes = map env polys, grid_root = Leaf empty_rect []\<rparr>"

definition GridRoot_init :: "GridRoot \<Rightarrow> nat list \<Rightarrow> GridRoot" where
  \<comment> \<open>Modelled from the spec: \<^verbatim>\<open>grid.init(order)\<close>, step 1 of the construction and the
      subdivision from depth 0.\<close>
  "GridRoot_init g ordered_slots =
     g\<lparr>grid_root :=
         build_cell (grid_boxes g) ordered_slots (grid_min_intersections g) (grid_max_depth g) 0
           (bounding_rect (grid_boxes g))\<rparr>"

definition GridRoot_find :: "GridRoot \<Rightarrow> real \<Rightarrow> real \<Rightarrow> nat list option" where
  \<comment> \<open>Modelled from the spec: \<^verbatim>\<open>grid.find(x, y)\<close>. No cell (the null pointer of the code) for a
      point that does not lie within the root rectangle, else the candidates of its leaf.\<close>
  "GridRoot_find g x y =
     (if rect_contains (cell_rect (grid_root g)) x y then Some (Cell_find (grid_root g) x y)
      else None)"

section \<open>The grid locator\<close>

text \<open>
  The constructor of \<^verbatim>\<open>GridPolygonDictionary\<close> fills \<^verbatim>\<open>order\<close> with \<open>0, 1, ..\<close> (\<^verbatim>\<open>std::iota\<close>),
  sorts it with \<^verbatim>\<open>std::sort\<close> under the comparison \<^verbatim>\<open>areas[lhs] < areas[rhs]\<close> and hands it
  to \<^verbatim>\<open>grid.init\<close>. \<^verbatim>\<open>std::sort\<close> belongs to the C++ standard library, not to the repository;
  it is a parameter \<open>std_sort\<close> of the model. \<open>std_sort_post\<close> is the postcondition of one
  call: the result is a rearrangement of the input in which no element is followed by one
  that compares less. \<open>std_sort_contract\<close> is the contract of the function, which promises
  that postcondition for every comparison that is a strict weak ordering. The contract says
  nothing on the order of equivalent elements, and \<^verbatim>\<open>std::sort\<close> is not a stable sort.
\<close>

definition std_sort_post :: "(nat \<Rightarrow> nat \<Rightarrow> bool) \<Rightarrow> nat list \<Rightarrow> nat list \<Rightarrow> bool" where
  "std_sort_post lt xs ys \<longleftrightarrow> mset ys = mset xs \<and> sorted_wrt (\<lambda>a b. \<not> lt b a) ys"

definition area_less :: "'g PolygonSet \<Rightarrow> nat \<Rightarrow> nat \<Rightarrow> bool" where
  \<comment> \<open>The lambda handed to \<^verbatim>\<open>std::sort\<close>.\<close>
  "area_less d lhs rhs \<longleftrightarrow> areas d ! lhs < areas d ! rhs"

definition GridPolygonDictionary_order ::
  "((nat \<Rightarrow> nat \<Rightarrow> bool) \<Rightarrow> nat list \<Rightarrow> nat list) \<Rightarrow> 'g PolygonSet \<Rightarrow> nat list"
where
  "GridPolygonDictionary_order std_sort d = std_sort (area_less d) [0..<length (polygons d)]"

definition GridPolygonDictionary ::
  "('g \<Rightarrow> Rect) \<Rightarrow> ((nat \<Rightarrow> nat \<Rightarrow> bool) \<Rightarrow> nat list \<Rightarrow> nat list) \<Rightarrow> nat \<Rightarrow> nat \<Rightarrow> 'g PolygonSet
     \<Rightarrow> GridRoot"
where
  \<comment> \<open>The constructor: the member \<^verbatim>\<open>grid\<close> as it stands when the constructor returns.\<close>
  "GridPolygonDictionary env std_sort kMinIntersections kMaxDepth d =
     (let grid = GridRoot_new kMinIntersections kMaxDepth env (polygons d);
          ordered_slots = GridPolygonDictionary_order std_sort d
      in GridRoot_init grid ordered_slots)"

definition sorts_by_area ::
  "((nat \<Rightarrow> nat \<Rightarrow> bool) \<Rightarrow> nat list \<Rightarrow> nat list) \<Rightarrow> 'g PolygonSet \<Rightarrow> bool"
where
  \<comment> \<open>The sorting function keeps the standard's promise on the constructor's call.\<close>
  "sorts_by_area std_sort d \<longleftrightarrow>
     std_sort_post (area_less d) [0..<length (polygons d)] (GridPolygonDictionary_order std_sort d)"

definition strict_weak_ordering :: "(nat \<Rightarrow> nat \<Rightarrow> bool) \<Rightarrow> bool" where
  \<comment> \<open>What the standard requires of the comparison handed to \<^verbatim>\<open>std::sort\<close>: irreflexive,
      transitive, and with a transitive relation of equivalence (neither less than the
      other).\<close>
  "strict_weak_ordering lt \<longleftrightarrow>
     (\<forall>a. \<not> lt a a) \<and>
     (\<forall>a b c. lt a b \<and> lt b c \<longrightarrow> lt a c) \<and>
     (\<forall>a b c. \<not> lt a b \<and> \<not> lt b a \<and> \<not> lt b c \<and> \<not> lt c b \<longrightarrow> \<not> lt a c \<and> \<not> lt c a)"

definition std_sort_contract :: "((nat \<Rightarrow> nat \<Rightarrow> bool) \<Rightarrow> nat list \<Rightarrow> nat list) \<Rightarrow> bool" where
  \<comment> \<open>The contract of the library function: on every input and for every comparison that is a
      strict weak ordering, the result is a sorted rearrangement of the input.\<close>
  "std_sort_contract std_sort \<longleftrightarrow>
     (\<forall>lt xs. strict_weak_ordering lt \<longrightarrow> std_sort_post lt xs (std_sort lt xs))"

fun scan_candidates :: "(Point \<Rightarrow> 'g \<Rightarrow> bool) \<Rightarrow> 'g list \<Rightarrow> Point \<Rightarrow> nat list \<Rightarrow> nat \<Rightarrow> bool \<times> nat" where
  \<comment> \<open>The loop over \<^verbatim>\<open>cell->polygon_ids\<close>, left by \<^verbatim>\<open>break\<close> at the first covering candidate.\<close>
  "scan_candidates cb polys point [] id_in = (False, id_in)"
| "scan_candidates cb polys point (candidate # rest) id_in =
     (if cb point (polys ! candidate) then (True, candidate)
      else scan_candidates cb polys point rest id_in)"

definition GridPolygonDictionary_find ::
  "(Point \<Rightarrow> 'g \<Rightarrow> bool) \<Rightarrow> (real \<Rightarrow> real \<Rightarrow> nat list option) \<Rightarrow> 'g PolygonSet \<Rightarrow> Point \<Rightarrow> nat
     \<Rightarrow> bool \<times> nat"
where
  \<comment> \<open>\<^verbatim>\<open>GridPolygonDictionary::find\<close>; \<open>grid_find\<close> is the member function \<^verbatim>\<open>grid.find\<close>, which
      returns the candidates of a cell or no cell.\<close>
  "GridPolygonDictionary_find cb grid_find d point id_in =
     (case grid_find (fst point) (snd point) of
        None \<Rightarrow> (False, id_in)
      | Some polygon_ids \<Rightarrow> scan_candidates cb (polygons d) point polygon_ids id_in)"

definition grid_locator ::
  "(Point \<Rightarrow> 'g \<Rightarrow> bool) \<Rightarrow> ('g \<Rightarrow> Rect) \<Rightarrow> ((nat \<Rightarrow> nat \<Rightarrow> bool) \<Rightarrow> nat list \<Rightarrow> nat list) \<Rightarrow> nat \<Rightarrow> nat
     \<Rightarrow> 'g PolygonSet \<Rightarrow> Point \<Rightarrow> nat \<Rightarrow> bool \<times> nat"
where
  \<comment> \<open>Build the dictionary, then query it.\<close>
  "grid_locator cb env std_sort kMinIntersections kMaxDepth d point id_in =
     GridPolygonDictionary_find cb
       (GridRoot_find (GridPolygonDictionary env std_sort kMinIntersections kMaxDepth d)) d point id_in"

definition envelope_sound :: "(Point \<Rightarrow> 'g \<Rightarrow> bool) \<Rightarrow> ('g \<Rightarrow> Rect) \<Rightarrow> 'g PolygonSet \<Rightarrow> Point \<Rightarrow> bool" where
  \<comment> \<open>What the grid needs of the two geometry primitives at a point: a geometry covers the
      point only within its own bounding box.\<close>
  "envelope_sound cb env d p \<longleftrightarrow>
     (\<forall>g \<in> set (polygons d). cb p g \<longrightarrow> rect_contains (env g) (fst p) (snd p))"

definition root_rect :: "('g \<Rightarrow> Rect) \<Rightarrow> 'g PolygonSet \<Rightarrow> Rect" where
  \<comment> \<open>The bounding rectangle of the polygon set.\<close>
  "root_rect env d = bounding_rect (map env (polygons d))"

definition locate :: "(Point \<Rightarrow> nat \<Rightarrow> bool \<times> nat) \<Rightarrow> 'g PolygonSet \<Rightarrow> Point \<Rightarrow> nat option" where
  \<comment> \<open>Modelled from the spec: the query dispatch of section 4.4, done by the base class: the
      external identifier is read from the polygon set at the slot the locator returns.\<close>
  "locate finder d point =
     (case finder point 0 of (found, slot) \<Rightarrow> if found then Some (ids d ! slot) else None)"

definition ties_in_slot_order :: "'g PolygonSet \<Rightarrow> nat list \<Rightarrow> bool" where
  \<comment> \<open>Slots of equal area stand in the ordering as they stand in the polygon set.\<close>
  "ties_in_slot_order d ordered_slots \<longleftrightarrow>
     sorted_wrt (\<lambda>a b. areas d ! a = areas d ! b \<longrightarrow> a < b) ordered_slots"

subsection \<open>A sorting function within the standard's contract\<close>

fun insert_before_equal :: "(nat \<Rightarrow> nat \<Rightarrow> bool) \<Rightarrow> nat \<Rightarrow> nat list \<Rightarrow> nat list" where
  "insert_before_equal lt x [] = [x]"
| "insert_before_equal lt x (y # ys) =
     (if lt y x then y # insert_before_equal lt x ys else x # y # ys)"

definition sort_keeping_ties :: "(nat \<Rightarrow> nat \<Rightarrow> bool) \<Rightarrow> nat list \<Rightarrow> nat list" where
  \<comment> \<open>An insertion sort that leaves equivalent elements in their input order.\<close>
  "sort_keeping_ties lt xs = foldr (insert_before_equal lt) xs []"

subsection \<open>The polygons of the concrete scenario\<close>

definition polygon_A :: MultiPolygon where
  "polygon_A = [([(0, 0), (0, 10), (10, 10), (10, 0)], [])]"

definition polygon_B :: MultiPolygon where
  "polygon_B = [([(2, 2), (2, 4), (4, 4), (4, 2)], [])]"

definition scenario :: "MultiPolygon PolygonSet" where
  "scenario = load [(polygon_A, 1), (polygon_B, 2)]"

definition seventeen :: "MultiPolygon PolygonSet" where
  \<comment> \<open>Seventeen entries of the same square, with the identifiers 1 to 17.\<close>
  "seventeen = load (map (\<lambda>i. (polygon_A, i)) [1..<18])"

section \<open>Creating the layout\<close>

text \<open>
  \<^verbatim>\<open>createLayout\<close> of \<^verbatim>\<open>PolygonDictionaryImplementations.cpp\<close>, with its five parameters in
  the order of the code; the first, a string without a name, is not used. Data types are
  compared by \<^verbatim>\<open>equals\<close>, modelled by equality of the type expressions; \<open>DataTypeOther\<close> stands
  for every type that is neither \<^verbatim>\<open>Float64\<close>, an array nor a tuple. The configuration is a map
  from keys to strings: \<^verbatim>\<open>getString\<close> with a default never fails, \<^verbatim>\<open>getString\<close> without one
  throws Poco's \<^verbatim>\<open>NotFoundException\<close> on a missing key.

  Three pieces the function calls are declared outside the sources at hand and are
  parameters of the model: \<open>getName\<close>, which prints a type for the error message;
  \<open>DictionaryLifetime\<close>, the constructor of the lifetime from the configuration; and
  \<open>make_dictionary\<close>, the constructor of the dictionary class the template is instantiated with.
  Either constructor may throw, so each returns a failure or its object, and the result of
  \<^verbatim>\<open>createLayout\<close> is a failure or the dictionary.
\<close>

datatype DataType =
  DataTypeFloat64 | DataTypeArray DataType | DataTypeTuple "DataType list" | DataTypeOther string

record DictionaryAttribute =
  attr_name :: string
  attr_type :: DataType

record DictionaryStructure =
  key :: "DictionaryAttribute list option"
  range_min :: "DictionaryAttribute option"
  range_max :: "DictionaryAttribute option"

datatype InputType = InputType_MultiPolygon | InputType_SimplePolygon

datatype PointType = PointType_Array | PointType_Tuple

datatype ErrorCode = BAD_ARGUMENTS

datatype Failure = Exception string ErrorCode | NotFoundException string

type_synonym AbstractConfiguration = "string \<rightharpoonup> string"

definition getString :: "AbstractConfiguration \<Rightarrow> string \<Rightarrow> Failure + string" where
  "getString config k = (case config k of None \<Rightarrow> Inl (NotFoundException k) | Some v \<Rightarrow> Inr v)"

definition getString_default :: "AbstractConfiguration \<Rightarrow> string \<Rightarrow> string \<Rightarrow> string" where
  "getString_default config k deflt = (case config k of None \<Rightarrow> deflt | Some v \<Rightarrow> v)"

definition multi_polygon_array :: DataType where
  "multi_polygon_array = DataTypeArray (DataTypeArray (DataTypeArray (DataTypeArray DataTypeFloat64)))"

definition multi_polygon_tuple :: DataType where
  "multi_polygon_tuple =
     DataTypeArray (DataTypeArray (DataTypeArray (DataTypeTuple [DataTypeFloat64, DataTypeFloat64])))"

definition simple_polygon_array :: DataType where
  "simple_polygon_array = DataTypeArray (DataTypeArray DataTypeFloat64)"

definition simple_polygon_tuple :: DataType where
  "simple_polygon_tuple = DataTypeArray (DataTypeTuple [DataTypeFloat64, DataTypeFloat64])"

definition quoted :: "string \<Rightarrow> string" where
  \<comment> \<open>A word between single quotes, as the messages of the code write it.\<close>
  "quoted w = CHR 0x27 # w @ [CHR 0x27]"

definition createLayout ::
  "(DataType \<Rightarrow> string) \<Rightarrow> (AbstractConfiguration \<Rightarrow> string \<Rightarrow> Failure + 'l) \<Rightarrow>
   (string \<Rightarrow> string \<Rightarrow> DictionaryStructure \<Rightarrow> 's \<Rightarrow> 'l \<Rightarrow> InputType \<Rightarrow> PointType \<Rightarrow> Failure + 'dict) \<Rightarrow>
   string \<Rightarrow> DictionaryStructure \<Rightarrow> AbstractConfiguration \<Rightarrow> string \<Rightarrow> 's \<Rightarrow> Failure + 'dict"
where
  "createLayout getName DictionaryLifetime make_dictionary unnamed dict_struct config config_prefix source_ptr =
     (let database = getString_default config (config_prefix @ ''.database'') [] in
      case getString config (config_prefix @ ''.name'') of
        Inl e \<Rightarrow> Inl e
      | Inr name \<Rightarrow>
          (case key dict_struct of
             None \<Rightarrow>
               Inl (Exception (quoted ''key'' @ '' is required for a polygon dictionary'') BAD_ARGUMENTS)
           | Some k \<Rightarrow>
               if length k \<noteq> 1 then
                 Inl (Exception
                       (''The '' @ quoted ''key'' @
                        '' should consist of a single attribute for a polygon dictionary'')
                       BAD_ARGUMENTS)
               else
                 (let key_type = attr_type (k ! 0);
                      not_allowed =
                        Inl (Exception
                              (''The key type '' @ getName key_type @
                               '' is not one of the following allowed types for a polygon dictionary: '' @
                               getName multi_polygon_array @ '' '' @
                               getName multi_polygon_tuple @ '' '' @
                               getName simple_polygon_array @ '' '' @
                               getName simple_polygon_tuple @ '' '')
                              BAD_ARGUMENTS);
                      shape =
                        (if key_type = multi_polygon_array then
                           Inr (InputType_MultiPolygon, PointType_Array)
                         else if key_type = multi_polygon_tuple then
                           Inr (InputType_MultiPolygon, PointType_Tuple)
                         else if key_type = simple_polygon_array then
                           Inr (InputType_SimplePolygon, PointType_Array)
                         else if key_type = simple_polygon_tuple then
                           Inr (InputType_SimplePolygon, PointType_Tuple)
                         else not_allowed)
                  in case shape of
                       Inl e \<Rightarrow> Inl e
                     | Inr (input_type, point_type) \<Rightarrow>
                         if range_min dict_struct \<noteq> None \<or> range_max dict_struct \<noteq> None then
                           Inl (Exception
                                 (name @
                                  '': elements range_min and range_max should be defined only '' @
                                  ''for a dictionary of layout '' @ quoted ''range_hashed'')
                                 BAD_ARGUMENTS)
                         else
                           (case DictionaryLifetime config (config_prefix @ ''.lifetime'') of
                              Inl e \<Rightarrow> Inl e
                            | Inr dict_lifetime \<Rightarrow>
                                make_dictionary database name dict_struct source_ptr dict_lifetime
                                  input_type point_type))))"

definition allowed_key_type :: "DataType \<Rightarrow> bool" where
  \<comment> \<open>The four shapes of a polygon key.\<close>
  "allowed_key_type t \<longleftrightarrow>
     t = multi_polygon_array \<or> t = multi_polygon_tuple \<or>
     t = simple_polygon_array \<or> t = simple_polygon_tuple"

definition input_type_of :: "DataType \<Rightarrow> InputType" where
  \<comment> \<open>The input type the code assigns to a key of one of the four shapes.\<close>
  "input_type_of t =
     (if t = multi_polygon_array \<or> t = multi_polygon_tuple then InputType_MultiPolygon
      else InputType_SimplePolygon)"

definition point_type_of :: "DataType \<Rightarrow> PointType" where
  \<comment> \<open>The point type the code assigns to a key of one of the four shapes.\<close>
  "point_type_of t =
     (if t = multi_polygon_array \<or> t = simple_polygon_array then PointType_Array
      else PointType_Tuple)"

subsection \<open>Values for evaluating the function on examples\<close>

fun join_with :: "string \<Rightarrow> string list \<Rightarrow> string" where
  "join_with sep [] = []"
| "join_with sep [x] = x"
| "join_with sep (x # y # ys) = x @ sep @ join_with sep (y # ys)"

fun print_type :: "DataType \<Rightarrow> string" where
  \<comment> \<open>A printer of types, for evaluating the error messages on examples.\<close>
  "print_type DataTypeFloat64 = ''Float64''"
| "print_type (DataTypeArray t) = ''Array('' @ print_type t @ '')''"
| "print_type (DataTypeTuple ts) = ''Tuple('' @ join_with '', '' (map print_type ts) @ '')''"
| "print_type (DataTypeOther n) = n"

definition read_lifetime :: "AbstractConfiguration \<Rightarrow> string \<Rightarrow> Failure + string \<times> string" where
  \<comment> \<open>A lifetime constructor for the examples: it reads the bounds under \<open>.min\<close> and \<open>.max\<close>, or
      one entry for both under the prefix itself, and fails where the configuration has
      neither.\<close>
  "read_lifetime config config_prefix =
     (case config (config_prefix @ ''.min'') of
        Some lo \<Rightarrow>
          (case getString config (config_prefix @ ''.max'') of
             Inl e \<Rightarrow> Inl e
           | Inr hi \<Rightarrow> Inr (lo, hi))
      | None \<Rightarrow>
          (case getString config config_prefix of
             Inl e \<Rightarrow> Inl e
           | Inr v \<Rightarrow> Inr (v, v)))"

definition record_arguments ::
  "string \<Rightarrow> string \<Rightarrow> DictionaryStructure \<Rightarrow> unit \<Rightarrow> string \<times> string \<Rightarrow> InputType \<Rightarrow> PointType
     \<Rightarrow> Failure + string \<times> string \<times> (string \<times> string) \<times> InputType \<times> PointType"
where
  \<comment> \<open>A dictionary constructor for the examples: it never throws and keeps what it is given.\<close>
  "record_arguments database name dict_struct source_ptr dict_lifetime input_type point_type =
     Inr (database, name, dict_lifetime, input_type, point_type)"

definition example_config :: AbstractConfiguration where
  "example_config = [''dictionary.name'' \<mapsto> ''regions'', ''dictionary.lifetime'' \<mapsto> ''300'']"

definition example_structure :: "DataType \<Rightarrow> DictionaryStructure" where
  \<comment> \<open>A structure with a single key attribute of the given type and no range.\<close>
  "example_structure t =
     \<lparr>key = Some [\<lparr>attr_name = ''polygon'', attr_type = t\<rparr>], range_min = None, range_max = None\<rparr>"

section \<open>Equality of polygons\<close>

text \<open>
  \<^verbatim>\<open>FunctionPolygonsEquals\<close> of \<^verbatim>\<open>polygonsEquals.cpp\<close>. \<open>first\<close> and \<open>second\<close> are the vectors the
  converters make of the two argument columns; \<open>correct\<close> and \<open>equals\<close> are the primitives of
  the geometry library. The result column holds one \<^verbatim>\<open>UInt8\<close> per row.
\<close>

definition getNumberOfArguments :: nat where
  "getNumberOfArguments = 2"

definition isVariadic :: bool where
  "isVariadic = False"

definition executeImpl ::
  "('g \<Rightarrow> 'g) \<Rightarrow> ('g \<Rightarrow> 'g \<Rightarrow> bool) \<Rightarrow> 'g list \<Rightarrow> 'g list \<Rightarrow> nat \<Rightarrow> 8 word list"
where
  "executeImpl correct equals first second input_rows_count =
     fold (\<lambda>i res_data.
             res_data @ [if equals (correct (first ! i)) (correct (second ! i)) then 1 else 0])
       [0..<input_rows_count] []"

definition close_ring :: "Ring \<Rightarrow> Ring" where
  "close_ring r = (if r = [] \<or> hd r = last r then r else r @ [hd r])"

definition correct_ring :: "bool \<Rightarrow> Ring \<Rightarrow> Ring" where
  \<comment> \<open>Close the ring and give it the wanted orientation (clockwise when \<open>cw\<close>).\<close>
  "correct_ring cw r =
     (let c = close_ring r in
      if (cw \<and> 0 < shoelace c) \<or> (\<not> cw \<and> shoelace c < 0) then rev c else c)"

definition correct_geometry :: "MultiPolygon \<Rightarrow> MultiPolygon" where
  \<comment> \<open>Modelled from the spec: the external normalisation \<^verbatim>\<open>correct\<close>, which fixes the closure and
      the orientation of the rings (outer rings clockwise, holes counter-clockwise).\<close>
  "correct_geometry g =
     map (\<lambda>poly. (correct_ring True (fst poly), map (correct_ring False) (snd poly))) g"

definition polygon_A_reversed :: MultiPolygon where
  \<comment> \<open>The square of \<open>polygon_A\<close>, closed and with its corners listed the other way round.\<close>
  "polygon_A_reversed = [([(0, 0), (10, 0), (10, 10), (0, 10), (0, 0)], [])]"

section \<open>Properties of the linear locator\<close>

lemma find_inv_step:
  assumes "find_inv cb d p id_in k s"
  shows "find_inv cb d p id_in (Suc k) (find_body cb d p k s)"
proof (cases s)
  case (fields found ident cur_area)
  show ?thesis
  proof (cases "cb p (polygons d ! k)")
    case False
    then show ?thesis
      using assms fields
      by (auto simp: find_inv_def find_body_def atLeast0_lessThan_Suc)
  next
    case True
    then show ?thesis
      using assms fields
      by (cases "\<not> found \<or> areas d ! k < cur_area")
         (fastforce simp: find_inv_def find_body_def atLeast0_lessThan_Suc)+
  qed
qed

lemma find_inv_fold:
  "find_inv cb d p id_in k (fold (find_body cb d p) [0..<k] (False, id_in, 0))"
proof (induction k)
  case 0
  show ?case by (simp add: find_inv_def)
next
  case (Suc k)
  then show ?case by (simp add: find_inv_step)
qed

lemma find_found_iff:
  "fst (SimplePolygonDictionary_find cb d p id_in) \<longleftrightarrow> (\<exists>j. covers cb d p j)"
  using find_inv_fold [of cb d p id_in "length (polygons d)"]
  by (auto simp: SimplePolygonDictionary_find_def find_inv_def covers_def split: prod.splits)

lemma find_not_found_id:
  "\<not> fst (SimplePolygonDictionary_find cb d p id_in) \<Longrightarrow>
     snd (SimplePolygonDictionary_find cb d p id_in) = id_in"
  using find_inv_fold [of cb d p id_in "length (polygons d)"]
  by (auto simp: SimplePolygonDictionary_find_def find_inv_def split: prod.splits)

lemma wins_covers:
  "wins cb d p i \<longleftrightarrow>
     covers cb d p i \<and>
     (\<forall>j. covers cb d p j \<longrightarrow>
        areas d ! i < areas d ! j \<or> (areas d ! i = areas d ! j \<and> i \<le> j))"
  by (auto simp: wins_def covers_def)

lemma find_found_wins:
  "fst (SimplePolygonDictionary_find cb d p id_in) \<Longrightarrow>
     wins cb d p (snd (SimplePolygonDictionary_find cb d p id_in))"
  using find_inv_fold [of cb d p id_in "length (polygons d)"]
  by (auto simp: SimplePolygonDictionary_find_def find_inv_def wins_def covers_def split: prod.splits)

lemma wins_unique: "wins cb d p i \<Longrightarrow> wins cb d p j \<Longrightarrow> i = j"
  unfolding wins_covers by (metis less_irrefl le_antisym less_asym)

section \<open>Properties of rectangles\<close>

lemma rect_contains_not_empty: "rect_contains r x y \<Longrightarrow> \<not> rect_is_empty r"
  by (auto simp: rect_contains_def rect_is_empty_def)

lemma empty_rect_contains: "\<not> rect_contains empty_rect x y"
  by (simp add: rect_contains_def empty_rect_def)

lemma rect_union_contains:
  "rect_contains a x y \<or> rect_contains b x y \<Longrightarrow> rect_contains (rect_union a b) x y"
proof (cases "rect_is_empty a \<or> rect_is_empty b")
  case True
  then show "rect_contains a x y \<or> rect_contains b x y \<Longrightarrow> ?thesis"
    using rect_contains_not_empty [of a x y] rect_contains_not_empty [of b x y]
    by (auto simp: rect_union_def)
next
  case False
  then show "rect_contains a x y \<or> rect_contains b x y \<Longrightarrow> ?thesis"
    by (auto simp: rect_union_def rect_contains_def)
qed

lemma fold_union_contains:
  "rect_contains acc x y \<or> (\<exists>b \<in> set bs. rect_contains b x y) \<Longrightarrow>
     rect_contains (fold (\<lambda>b acc. rect_union acc b) bs acc) x y"
proof (induction bs arbitrary: acc)
  case Nil
  then show ?case by simp
next
  case (Cons b bs)
  have "rect_contains (rect_union acc b) x y \<or> (\<exists>c \<in> set bs. rect_contains c x y)"
    using Cons.prems rect_union_contains [of acc x y b] by auto
  then show ?case using Cons.IH by simp
qed

lemma bounding_rect_contains:
  "b \<in> set bs \<Longrightarrow> rect_contains b x y \<Longrightarrow> rect_contains (bounding_rect bs) x y"
  unfolding bounding_rect_def by (rule fold_union_contains) blast

lemma contains_intersects:
  "rect_contains a x y \<Longrightarrow> rect_contains b x y \<Longrightarrow> rect_intersects a b"
  by (auto simp: rect_contains_def rect_intersects_def)

lemma quadrant_contains:
  "rect_contains r x y \<Longrightarrow> rect_contains (quadrant r (\<not> x < mid_x r) (\<not> y < mid_y r)) x y"
  by (auto simp: rect_contains_def quadrant_def)

section \<open>Properties of the grid index\<close>

declare build_cell.simps [simp del]

lemma cell_rect_build [simp]:
  "cell_rect (build_cell boxes os mi md depth r) = r"
  by (subst build_cell.simps) (simp add: Let_def)

lemma Cell_find_build:
  "rect_contains r x y \<Longrightarrow>
     \<exists>r'. rect_contains r' x y \<and>
          Cell_find (build_cell boxes os mi md depth r) x y =
            filter (\<lambda>i. rect_intersects (boxes ! i) r') os"
proof (induction boxes os mi md depth r rule: build_cell.induct)
  case (1 boxes os mi md depth r)
  let ?cands = "filter (\<lambda>i. rect_intersects (boxes ! i) r) os"
  show ?case
  proof (cases "mi < length ?cands \<and> depth < md")
    case False
    then have "Cell_find (build_cell boxes os mi md depth r) x y = ?cands"
      by (subst build_cell.simps) (auto simp: Let_def)
    with "1.prems" show ?thesis by blast
  next
    case True
    let ?q = "quadrant r (\<not> x < mid_x r) (\<not> y < mid_y r)"
    have inq: "rect_contains ?q x y"
      using "1.prems" by (rule quadrant_contains)
    have step: "Cell_find (build_cell boxes os mi md depth r) x y =
                Cell_find (build_cell boxes os mi md (Suc depth) ?q) x y"
      using True by (subst build_cell.simps) (simp add: Let_def)
    have "\<exists>r'. rect_contains r' x y \<and>
            Cell_find (build_cell boxes os mi md (Suc depth) ?q) x y =
              filter (\<lambda>i. rect_intersects (boxes ! i) r') os"
    proof (cases "x < mid_x r"; cases "y < mid_y r")
      assume a: "x < mid_x r" "y < mid_y r"
      show ?thesis
        using "1.IH"(1) [OF refl] True inq a by simp
    next
      assume a: "x < mid_x r" "\<not> y < mid_y r"
      show ?thesis
        using "1.IH"(2) [OF refl] True inq a by simp
    next
      assume a: "\<not> x < mid_x r" "y < mid_y r"
      show ?thesis
        using "1.IH"(3) [OF refl] True inq a by simp
    next
      assume a: "\<not> x < mid_x r" "\<not> y < mid_y r"
      show ?thesis
        using "1.IH"(4) [OF refl] True inq a by simp
    qed
    with step show ?thesis by simp
  qed
qed

lemma leaves_build:
  "(r', cs) \<in> set (leaves (build_cell boxes os mi md depth r)) \<Longrightarrow>
     cs = filter (\<lambda>i. rect_intersects (boxes ! i) r') os"
proof (induction boxes os mi md depth r rule: build_cell.induct)
  case (1 boxes os mi md depth r)
  let ?cands = "filter (\<lambda>i. rect_intersects (boxes ! i) r) os"
  show ?case
  proof (cases "mi < length ?cands \<and> depth < md")
    case False
    then have "leaves (build_cell boxes os mi md depth r) = [(r, ?cands)]"
      by (subst build_cell.simps) (auto simp: Let_def)
    with "1.prems" show ?thesis by simp
  next
    case True
    then have "leaves (build_cell boxes os mi md depth r) =
        leaves (build_cell boxes os mi md (Suc depth) (quadrant r False False)) @
        leaves (build_cell boxes os mi md (Suc depth) (quadrant r False True)) @
        leaves (build_cell boxes os mi md (Suc depth) (quadrant r True False)) @
        leaves (build_cell boxes os mi md (Suc depth) (quadrant r True True))"
      by (subst build_cell.simps) (simp add: Let_def)
    with "1.prems" "1.IH" [OF refl True] show ?thesis by auto
  qed
qed

section \<open>Properties of the grid locator\<close>

lemma scan_candidates_filter:
  "(\<forall>c \<in> set cs. cb p (polys ! c) \<longrightarrow> Q c) \<Longrightarrow>
     scan_candidates cb polys p (filter Q cs) id_in = scan_candidates cb polys p cs id_in"
  by (induction cs) auto

lemma scan_candidates_found_iff:
  "fst (scan_candidates cb polys p cs id_in) \<longleftrightarrow> (\<exists>c \<in> set cs. cb p (polys ! c))"
  by (induction cs) auto

lemma scan_candidates_not_found:
  "\<not> fst (scan_candidates cb polys p cs id_in) \<Longrightarrow>
     snd (scan_candidates cb polys p cs id_in) = id_in"
  by (induction cs) (auto split: if_splits)

lemma scan_candidates_first:
  "fst (scan_candidates cb polys p cs id_in) \<Longrightarrow>
     \<exists>pre post. cs = pre @ snd (scan_candidates cb polys p cs id_in) # post \<and>
       cb p (polys ! snd (scan_candidates cb polys p cs id_in)) \<and>
       (\<forall>c \<in> set pre. \<not> cb p (polys ! c))"
proof (induction cs)
  case Nil
  then show ?case by simp
next
  case (Cons c cs)
  show ?case
  proof (cases "cb p (polys ! c)")
    case True
    then have "c # cs = [] @ snd (scan_candidates cb polys p (c # cs) id_in) # cs"
      by simp
    with True show ?thesis by (metis empty_iff list.set(1) scan_candidates.simps(2) snd_conv)
  next
    case False
    with Cons.prems have "fst (scan_candidates cb polys p cs id_in)" by simp
    from Cons.IH [OF this] obtain pre post where
      pp: "cs = pre @ snd (scan_candidates cb polys p cs id_in) # post"
          "cb p (polys ! snd (scan_candidates cb polys p cs id_in))"
          "\<forall>c \<in> set pre. \<not> cb p (polys ! c)"
      by blast
    have eq: "scan_candidates cb polys p (c # cs) id_in = scan_candidates cb polys p cs id_in"
      using False by simp
    have "c # cs = (c # pre) @ snd (scan_candidates cb polys p cs id_in) # post"
      using pp(1) by simp
    moreover have "\<forall>c' \<in> set (c # pre). \<not> cb p (polys ! c')"
      using pp(3) False by simp
    ultimately show ?thesis
      unfolding eq using pp(2) by blast
  qed
qed

lemma scan_candidates_sorted:
  assumes "sorted_wrt R cs" and "fst (scan_candidates cb polys p cs id_in)"
    and "c \<in> set cs" and "cb p (polys ! c)"
  shows "c = snd (scan_candidates cb polys p cs id_in) \<or>
         R (snd (scan_candidates cb polys p cs id_in)) c"
proof -
  let ?i = "snd (scan_candidates cb polys p cs id_in)"
  from scan_candidates_first [OF assms(2)] obtain pre post where
    pp: "cs = pre @ ?i # post" "\<forall>c \<in> set pre. \<not> cb p (polys ! c)"
    by blast
  from assms(3,4) pp have "c = ?i \<or> c \<in> set post"
    by (metis Un_iff set_ConsD set_append)
  moreover have "\<forall>c' \<in> set post. R ?i c'"
    using assms(1) pp(1) by (metis list.set_intros(1) sorted_wrt.simps(2) sorted_wrt_append)
  ultimately show ?thesis by blast
qed

lemma std_sort_post_set: "std_sort_post lt xs ys \<Longrightarrow> set ys = set xs"
  unfolding std_sort_post_def by (metis mset_eq_setD)

lemma std_sort_post_length: "std_sort_post lt xs ys \<Longrightarrow> length ys = length xs"
  unfolding std_sort_post_def by (metis mset_eq_length)

lemma std_sort_post_distinct: "std_sort_post lt xs ys \<Longrightarrow> distinct xs \<Longrightarrow> distinct ys"
  unfolding std_sort_post_def by (metis mset_eq_imp_distinct_iff)

lemma order_set:
  "sorts_by_area std_sort d \<Longrightarrow>
     set (GridPolygonDictionary_order std_sort d) = {0..<length (polygons d)}"
  unfolding sorts_by_area_def using std_sort_post_set by fastforce

lemma order_sorted:
  "sorts_by_area std_sort d \<Longrightarrow>
     sorted_wrt (\<lambda>a b. areas d ! a \<le> areas d ! b) (GridPolygonDictionary_order std_sort d)"
  unfolding sorts_by_area_def std_sort_post_def area_less_def
  by (simp add: not_less)

lemma grid_root_eq:
  "grid_root (GridPolygonDictionary env std_sort kMin kMax d) =
     build_cell (map env (polygons d)) (GridPolygonDictionary_order std_sort d) kMin kMax 0
       (root_rect env d)"
  by (simp add: GridPolygonDictionary_def GridRoot_init_def GridRoot_new_def root_rect_def)

lemma grid_locator_outside:
  "\<not> rect_contains (root_rect env d) (fst p) (snd p) \<Longrightarrow>
     grid_locator cb env std_sort kMin kMax d p id_in = (False, id_in)"
  by (simp add: grid_locator_def GridPolygonDictionary_find_def GridRoot_find_def grid_root_eq)

lemma covers_in_root:
  assumes "envelope_sound cb env d p" and "covers cb d p j"
  shows "rect_contains (root_rect env d) (fst p) (snd p)"
proof -
  from assms(2) have j: "j < length (polygons d)" "cb p (polygons d ! j)"
    by (simp_all add: covers_def)
  then have "rect_contains (env (polygons d ! j)) (fst p) (snd p)"
    using assms(1) by (simp add: envelope_sound_def)
  moreover have "env (polygons d ! j) \<in> set (map env (polygons d))"
    using j(1) by simp
  ultimately show ?thesis
    unfolding root_rect_def by (rule bounding_rect_contains [rotated])
qed

lemma grid_locator_scan:
  assumes so: "sorts_by_area std_sort d" and env: "envelope_sound cb env d p"
  shows "grid_locator cb env std_sort kMin kMax d p id_in =
           scan_candidates cb (polygons d) p (GridPolygonDictionary_order std_sort d) id_in"
proof (cases "rect_contains (root_rect env d) (fst p) (snd p)")
  case False
  have "\<not> (\<exists>c \<in> set (GridPolygonDictionary_order std_sort d). cb p (polygons d ! c))"
  proof
    assume "\<exists>c \<in> set (GridPolygonDictionary_order std_sort d). cb p (polygons d ! c)"
    then obtain c where "c < length (polygons d)" "cb p (polygons d ! c)"
      using order_set [OF so] by auto
    then have "covers cb d p c" by (simp add: covers_def)
    from covers_in_root [OF env this] False show False by simp
  qed
  then have "\<not> fst (scan_candidates cb (polygons d) p (GridPolygonDictionary_order std_sort d) id_in)"
    by (simp add: scan_candidates_found_iff)
  then have "scan_candidates cb (polygons d) p (GridPolygonDictionary_order std_sort d) id_in
               = (False, id_in)"
    using scan_candidates_not_found [of cb "polygons d" p _ id_in]
    by (metis prod.collapse)
  with grid_locator_outside [OF False] show ?thesis by simp
next
  case True
  let ?os = "GridPolygonDictionary_order std_sort d"
  let ?boxes = "map env (polygons d)"
  from Cell_find_build [OF True, of ?boxes ?os kMin kMax 0] obtain r' where
    r': "rect_contains r' (fst p) (snd p)"
        "Cell_find (build_cell ?boxes ?os kMin kMax 0 (root_rect env d)) (fst p) (snd p) =
           filter (\<lambda>i. rect_intersects (?boxes ! i) r') ?os"
    by blast
  have keep: "\<forall>c \<in> set ?os. cb p (polygons d ! c) \<longrightarrow> rect_intersects (?boxes ! c) r'"
  proof (intro ballI impI)
    fix c assume c: "c \<in> set ?os" "cb p (polygons d ! c)"
    then have lt: "c < length (polygons d)" using order_set [OF so] by auto
    then have "rect_contains (env (polygons d ! c)) (fst p) (snd p)"
      using env c(2) by (simp add: envelope_sound_def)
    then show "rect_intersects (?boxes ! c) r'"
      using lt r'(1) by (simp add: contains_intersects)
  qed
  have "grid_locator cb env std_sort kMin kMax d p id_in =
          scan_candidates cb (polygons d) p (filter (\<lambda>i. rect_intersects (?boxes ! i) r') ?os) id_in"
    using True r'(2)
    by (simp add: grid_locator_def GridPolygonDictionary_find_def GridRoot_find_def grid_root_eq)
  also have "\<dots> = scan_candidates cb (polygons d) p ?os id_in"
    using keep by (rule scan_candidates_filter)
  finally show ?thesis .
qed

lemma grid_locator_found_iff:
  assumes "sorts_by_area std_sort d" and "envelope_sound cb env d p"
  shows "fst (grid_locator cb env std_sort kMin kMax d p id_in) \<longleftrightarrow> (\<exists>j. covers cb d p j)"
  unfolding grid_locator_scan [OF assms] scan_candidates_found_iff order_set [OF assms(1)]
  by (auto simp: covers_def)

lemma grid_locator_not_found:
  assumes "sorts_by_area std_sort d" and "envelope_sound cb env d p"
    and "\<not> fst (grid_locator cb env std_sort kMin kMax d p id_in)"
  shows "snd (grid_locator cb env std_sort kMin kMax d p id_in) = id_in"
  using assms(3) unfolding grid_locator_scan [OF assms(1,2)]
  by (rule scan_candidates_not_found)

lemma grid_locator_covers:
  assumes "sorts_by_area std_sort d" and "envelope_sound cb env d p"
    and "fst (grid_locator cb env std_sort kMin kMax d p id_in)"
  shows "covers cb d p (snd (grid_locator cb env std_sort kMin kMax d p id_in))"
proof -
  let ?os = "GridPolygonDictionary_order std_sort d"
  have f: "fst (scan_candidates cb (polygons d) p ?os id_in)"
    using assms(3) unfolding grid_locator_scan [OF assms(1,2)] .
  from scan_candidates_first [OF f] obtain pre post where
    "?os = pre @ snd (scan_candidates cb (polygons d) p ?os id_in) # post"
    "cb p (polygons d ! snd (scan_candidates cb (polygons d) p ?os id_in))"
    by blast
  moreover from this(1) have "snd (scan_candidates cb (polygons d) p ?os id_in) \<in> set ?os"
    by (metis in_set_conv_decomp)
  ultimately show ?thesis
    unfolding grid_locator_scan [OF assms(1,2)] covers_def
    using order_set [OF assms(1)] by auto
qed

lemma grid_locator_smallest:
  assumes "sorts_by_area std_sort d" and "envelope_sound cb env d p"
    and "fst (grid_locator cb env std_sort kMin kMax d p id_in)"
    and "covers cb d p j"
  shows "areas d ! snd (grid_locator cb env std_sort kMin kMax d p id_in) \<le> areas d ! j"
proof -
  let ?os = "GridPolygonDictionary_order std_sort d"
  have f: "fst (scan_candidates cb (polygons d) p ?os id_in)"
    using assms(3) unfolding grid_locator_scan [OF assms(1,2)] .
  have j: "j \<in> set ?os" "cb p (polygons d ! j)"
    using assms(4) order_set [OF assms(1)] by (auto simp: covers_def)
  from scan_candidates_sorted [OF order_sorted [OF assms(1)] f j]
  show ?thesis
    unfolding grid_locator_scan [OF assms(1,2)] by auto
qed

lemma Cell_find_build_step:
  "Cell_find (build_cell boxes os mi md depth r) x y =
     (let candidates = filter (\<lambda>i. rect_intersects (boxes ! i) r) os in
      if mi < length candidates \<and> depth < md then
        Cell_find (build_cell boxes os mi md (Suc depth) (quadrant r (\<not> x < mid_x r) (\<not> y < mid_y r))) x y
      else candidates)"
  by (subst build_cell.simps) (simp add: Let_def)

section \<open>The concrete scenario, evaluated\<close>

lemmas geometry_eval =
  covered_by_def covered_by_polygon_def covered_by_ring_def within_ring_def on_boundary_def
  inside_ring_def ring_edges_def on_segment_def ray_crosses_def
  area_def polygon_area_def shoelace_def

lemma load_well_formed: "well_formed (load entries)"
  by (simp add: well_formed_def load_def)

lemma polygon_A_area: "area polygon_A = 100"
  by (simp add: polygon_A_def geometry_eval)

lemma polygon_B_area: "area polygon_B = 4"
  by (simp add: polygon_B_def geometry_eval)

lemma polygon_A_covers:
  "covered_by (3, 3) polygon_A" "covered_by (1, 1) polygon_A" "\<not> covered_by (20, 20) polygon_A"
  by (simp_all add: polygon_A_def geometry_eval)

lemma polygon_B_covers:
  "covered_by (3, 3) polygon_B" "\<not> covered_by (1, 1) polygon_B" "\<not> covered_by (20, 20) polygon_B"
  by (simp_all add: polygon_B_def geometry_eval)

lemma polygon_A_envelope:
  "envelope polygon_A = \<lparr>min_x = 0, min_y = 0, max_x = 10, max_y = 10\<rparr>"
  by (simp add: polygon_A_def envelope_def bounding_rect_def rect_union_def rect_is_empty_def
      empty_rect_def)

lemma polygon_B_envelope:
  "envelope polygon_B = \<lparr>min_x = 2, min_y = 2, max_x = 4, max_y = 4\<rparr>"
  by (simp add: polygon_B_def envelope_def bounding_rect_def rect_union_def rect_is_empty_def
      empty_rect_def)

lemma scenario_fields:
  "polygons scenario = [polygon_A, polygon_B]" "areas scenario = [100, 4]" "ids scenario = [1, 2]"
  by (simp_all add: scenario_def load_def polygon_A_area polygon_B_area)

lemma upt_2: "[0..<2] = [0, Suc 0]"
  by (simp add: upt_rec)

lemma scenario_find:
  "SimplePolygonDictionary_find covered_by scenario (3, 3) id_in = (True, 1)"
  "SimplePolygonDictionary_find covered_by scenario (1, 1) id_in = (True, 0)"
  "SimplePolygonDictionary_find covered_by scenario (20, 20) id_in = (False, id_in)"
  by (simp_all add: SimplePolygonDictionary_find_def find_body_def scenario_fields upt_2
      polygon_A_covers polygon_B_covers)

lemma scenario_order:
  "GridPolygonDictionary_order sort_keeping_ties scenario = [1, 0]"
  by (simp add: GridPolygonDictionary_order_def sort_keeping_ties_def area_less_def
      scenario_fields upt_2)

lemma scenario_root: "root_rect envelope scenario = \<lparr>min_x = 0, min_y = 0, max_x = 10, max_y = 10\<rparr>"
  by (simp add: root_rect_def scenario_fields polygon_A_envelope polygon_B_envelope
      bounding_rect_def rect_union_def rect_is_empty_def empty_rect_def)

lemma scenario_envelope_sound:
  "envelope_sound covered_by envelope scenario (3, 3)"
  "envelope_sound covered_by envelope scenario (1, 1)"
  "envelope_sound covered_by envelope scenario (20, 20)"
  by (simp_all add: envelope_sound_def scenario_fields polygon_A_envelope polygon_B_envelope
      polygon_A_covers polygon_B_covers rect_contains_def)

section \<open>The claims on the linear locator\<close>

text \<open>
  C2. For every polygon set and every point, the find of the linear locator returns true
  and sets \<^verbatim>\<open>id\<close> to a slot whose geometry covers the point and whose area is smallest among
  the covering slots, the first such slot in slot order when several have that area; it
  returns false if and only if no slot covers the point.
\<close>

theorem linear_find_smallest_area:
  assumes "well_formed d"
  shows "((\<exists>j. covers cb d p j) \<longrightarrow>
            fst (SimplePolygonDictionary_find cb d p id_in) \<and>
            wins cb d p (snd (SimplePolygonDictionary_find cb d p id_in))) \<and>
         (\<not> fst (SimplePolygonDictionary_find cb d p id_in) \<longleftrightarrow> (\<forall>j. \<not> covers cb d p j))"
  using find_found_iff [of cb d p id_in] find_found_wins [of cb d p id_in] by blast

theorem linear_find_smallest_area_witness:
  "well_formed scenario \<and>
   SimplePolygonDictionary_find covered_by scenario (3, 3) 0 = (True, 1) \<and>
   wins covered_by scenario (3, 3) 1"
proof -
  have wf: "well_formed scenario"
    by (simp add: scenario_def load_well_formed)
  have c: "covers covered_by scenario (3, 3) 0"
    by (simp add: covers_def scenario_fields polygon_A_covers)
  have r: "SimplePolygonDictionary_find covered_by scenario (3, 3) 0 = (True, 1)"
    by (rule scenario_find)
  from linear_find_smallest_area [OF wf, of covered_by "(3, 3)" 0] c
  have "wins covered_by scenario (3, 3) (snd (SimplePolygonDictionary_find covered_by scenario (3, 3) 0))"
    by blast
  then have "wins covered_by scenario (3, 3) 1"
    by (simp add: r)
  with wf r show ?thesis by simp
qed

text \<open>
  C4. With polygon A = [[0,0],[0,10],[10,10],[10,0]] (area 100, id 1) in the first slot and
  polygon B = [[2,2],[2,4],[4,4],[4,2]] (area 4, id 2) in the second, the query of the point
  (3,3) finds slot 1 and so id 2, the query of (1,1) finds slot 0 and so id 1, and the query
  of (20,20) finds nothing.
\<close>

theorem concrete_scenario:
  "area polygon_A = 100 \<and> area polygon_B = 4 \<and>
   polygons scenario = [polygon_A, polygon_B] \<and> ids scenario = [1, 2] \<and>
   SimplePolygonDictionary_find covered_by scenario (3, 3) id_in = (True, 1) \<and>
   SimplePolygonDictionary_find covered_by scenario (1, 1) id_in = (True, 0) \<and>
   SimplePolygonDictionary_find covered_by scenario (20, 20) id_in = (False, id_in) \<and>
   locate (SimplePolygonDictionary_find covered_by scenario) scenario (3, 3) = Some 2 \<and>
   locate (SimplePolygonDictionary_find covered_by scenario) scenario (1, 1) = Some 1 \<and>
   locate (SimplePolygonDictionary_find covered_by scenario) scenario (20, 20) = None"
  by (simp add: polygon_A_area polygon_B_area scenario_fields scenario_find locate_def)

text \<open>
  C10. For both locators, a find that returns false leaves the output parameter \<^verbatim>\<open>id\<close> as the
  caller passed it: \<^verbatim>\<open>id\<close> is written only when a covering polygon is found. For the grid
  locator this holds whatever cell \<^verbatim>\<open>grid.find\<close> returns.
\<close>

theorem not_found_keeps_id:
  "(\<not> fst (SimplePolygonDictionary_find cb d p id_in) \<longrightarrow>
      snd (SimplePolygonDictionary_find cb d p id_in) = id_in) \<and>
   (\<not> fst (GridPolygonDictionary_find cb grid_find d p id_in) \<longrightarrow>
      snd (GridPolygonDictionary_find cb grid_find d p id_in) = id_in)"
proof (intro conjI impI)
  assume "\<not> fst (SimplePolygonDictionary_find cb d p id_in)"
  then show "snd (SimplePolygonDictionary_find cb d p id_in) = id_in"
    by (rule find_not_found_id)
next
  assume nf: "\<not> fst (GridPolygonDictionary_find cb grid_find d p id_in)"
  show "snd (GridPolygonDictionary_find cb grid_find d p id_in) = id_in"
  proof (cases "grid_find (fst p) (snd p)")
    case None
    then show ?thesis by (simp add: GridPolygonDictionary_find_def)
  next
    case (Some polygon_ids)
    with nf show ?thesis
      by (simp add: GridPolygonDictionary_find_def scan_candidates_not_found)
  qed
qed

theorem not_found_keeps_id_witness:
  "SimplePolygonDictionary_find covered_by scenario (20, 20) 7 = (False, 7) \<and>
   GridPolygonDictionary_find covered_by (\<lambda>x y. Some [1, 0]) scenario (20, 20) 7 = (False, 7)"
proof -
  have s: "\<not> fst (SimplePolygonDictionary_find covered_by scenario (20, 20) 7)"
    by (simp add: scenario_find)
  have g: "\<not> fst (GridPolygonDictionary_find covered_by (\<lambda>x y. Some [1, 0]) scenario (20, 20) 7)"
    by (simp add: GridPolygonDictionary_find_def scenario_fields polygon_A_covers polygon_B_covers)
  from not_found_keeps_id [of covered_by scenario "(20, 20)" 7 "\<lambda>x y. Some [1, 0]"] s g
  have "snd (SimplePolygonDictionary_find covered_by scenario (20, 20) 7) = 7 \<and>
        snd (GridPolygonDictionary_find covered_by (\<lambda>x y. Some [1, 0]) scenario (20, 20) 7) = 7"
    by blast
  then show ?thesis
    using s g by (simp add: prod_eq_iff)
qed

section \<open>The claims on the grid locator\<close>

text \<open>
  C6. For every polygon set, a query point outside the bounding rectangle of all polygons
  makes the find of the grid locator return not found: \<^verbatim>\<open>grid.find\<close> returns no cell, so the
  loop over candidates is never entered and the result is the same for every containment
  primitive \<open>cb\<close>, also one that would cover every point.
\<close>

theorem outside_root_not_found:
  assumes "\<not> rect_contains (root_rect env d) (fst p) (snd p)"
  shows "GridRoot_find (GridPolygonDictionary env std_sort kMin kMax d) (fst p) (snd p) = None \<and>
         grid_locator cb env std_sort kMin kMax d p id_in = (False, id_in)"
  using assms grid_locator_outside [OF assms]
  by (simp add: GridRoot_find_def grid_root_eq)

theorem outside_root_not_found_witness:
  "\<not> rect_contains (root_rect envelope scenario) 20 20 \<and>
   GridRoot_find (GridPolygonDictionary envelope sort_keeping_ties 1 2 scenario) 20 20 = None \<and>
   grid_locator (\<lambda>p g. True) envelope sort_keeping_ties 1 2 scenario (20, 20) 7 = (False, 7)"
proof -
  have out: "\<not> rect_contains (root_rect envelope scenario) (fst (20, 20)) (snd (20, 20))"
    by (simp add: scenario_root rect_contains_def)
  from outside_root_not_found [OF out, of sort_keeping_ties 1 2 "\<lambda>p g. True" 7] out
  show ?thesis by simp
qed

text \<open>
  C7. Building either locator with zero polygons succeeds and yields an index on which
  every query returns not found; the grid is then the single leaf without candidates.
\<close>

theorem empty_set_not_found:
  assumes "polygons d = []"
  shows "SimplePolygonDictionary_find cb d p id_in = (False, id_in) \<and>
         grid_locator cb env std_sort kMin kMax d p id_in = (False, id_in) \<and>
         (sorts_by_area std_sort d \<longrightarrow>
            grid_root (GridPolygonDictionary env std_sort kMin kMax d) = Leaf empty_rect [])"
proof (intro conjI impI)
  show "SimplePolygonDictionary_find cb d p id_in = (False, id_in)"
    using assms by (simp add: SimplePolygonDictionary_find_def)
  have root: "root_rect env d = empty_rect"
    using assms by (simp add: root_rect_def bounding_rect_def)
  then have "\<not> rect_contains (root_rect env d) (fst p) (snd p)"
    by (simp add: empty_rect_contains)
  then show "grid_locator cb env std_sort kMin kMax d p id_in = (False, id_in)"
    by (rule grid_locator_outside)
  assume "sorts_by_area std_sort d"
  then have "set (GridPolygonDictionary_order std_sort d) = {}"
    using assms order_set [of std_sort d] by simp
  then have "GridPolygonDictionary_order std_sort d = []"
    by simp
  then show "grid_root (GridPolygonDictionary env std_sort kMin kMax d) = Leaf empty_rect []"
    using assms root by (simp add: grid_root_eq build_cell.simps)
qed

theorem empty_set_not_found_witness:
  "polygons (load []) = [] \<and> sorts_by_area sort_keeping_ties (load []) \<and>
   SimplePolygonDictionary_find covered_by (load []) (3, 3) 7 = (False, 7) \<and>
   grid_locator covered_by envelope sort_keeping_ties 1 2 (load []) (3, 3) 7 = (False, 7) \<and>
   grid_root (GridPolygonDictionary envelope sort_keeping_ties 1 2 (load [])) = Leaf empty_rect []"
proof -
  have e: "polygons (load []) = []"
    by (simp add: load_def)
  have s: "sorts_by_area sort_keeping_ties (load [])"
    by (simp add: sorts_by_area_def std_sort_post_def GridPolygonDictionary_order_def
        sort_keeping_ties_def load_def)
  from empty_set_not_found [OF e, of covered_by "(3, 3)" 7 envelope sort_keeping_ties 1 2] e s
  show ?thesis by simp
qed

lemma scenario_well_formed: "well_formed scenario"
  by (simp add: scenario_def load_well_formed)

section \<open>The contract of the sorting function\<close>

text \<open>
  The comparison of the constructor is a strict weak ordering, so the contract of the library
  applies to the constructor's call. The insertion sort of the examples keeps the contract.
\<close>

lemma strict_weak_ordering_not_less_trans:
  assumes "strict_weak_ordering lt" and "\<not> lt b a" and "\<not> lt c b"
  shows "\<not> lt c a"
proof
  assume ca: "lt c a"
  have trans: "\<And>x y z. lt x y \<Longrightarrow> lt y z \<Longrightarrow> lt x z"
    and equiv: "\<And>x y z. \<not> lt x y \<Longrightarrow> \<not> lt y x \<Longrightarrow> \<not> lt y z \<Longrightarrow> \<not> lt z y \<Longrightarrow> \<not> lt z x"
    using assms(1) unfolding strict_weak_ordering_def by blast+
  have "\<not> lt a b"
    using trans [OF ca] assms(3) by blast
  moreover have "\<not> lt b c"
    using trans [of b c a] ca assms(2) by blast
  ultimately have "\<not> lt c a"
    using equiv [of a b c] assms(2,3) by blast
  with ca show False by simp
qed

lemma strict_weak_ordering_asym:
  assumes "strict_weak_ordering lt" and "lt a b"
  shows "\<not> lt b a"
  using assms unfolding strict_weak_ordering_def by blast

lemma area_less_strict_weak: "strict_weak_ordering (area_less d)"
  unfolding strict_weak_ordering_def area_less_def by auto

lemma contract_sorts_by_area: "std_sort_contract std_sort \<Longrightarrow> sorts_by_area std_sort d"
  unfolding std_sort_contract_def sorts_by_area_def GridPolygonDictionary_order_def
  using area_less_strict_weak by blast

lemma mset_insert_before_equal: "mset (insert_before_equal lt x ys) = add_mset x (mset ys)"
  by (induction ys) simp_all

lemma set_insert_before_equal: "set (insert_before_equal lt x ys) = insert x (set ys)"
  by (induction ys) auto

lemma sorted_insert_before_equal:
  assumes swo: "strict_weak_ordering lt"
  shows "sorted_wrt (\<lambda>a b. \<not> lt b a) ys \<Longrightarrow>
           sorted_wrt (\<lambda>a b. \<not> lt b a) (insert_before_equal lt x ys)"
proof (induction ys)
  case Nil
  then show ?case by simp
next
  case (Cons y ys)
  show ?case
  proof (cases "lt y x")
    case True
    have "\<not> lt x y"
      using strict_weak_ordering_asym [OF swo True] .
    with True Cons show ?thesis
      by (auto simp: set_insert_before_equal)
  next
    case False
    have "\<not> lt z x" if "z \<in> set ys" for z
    proof -
      have "\<not> lt z y" using Cons.prems that by simp
      with False show ?thesis
        using strict_weak_ordering_not_less_trans [OF swo, of y x z] by blast
    qed
    with False Cons.prems show ?thesis by auto
  qed
qed

lemma sort_keeping_ties_contract: "std_sort_contract sort_keeping_ties"
  unfolding std_sort_contract_def
proof (intro allI impI)
  fix lt :: "nat \<Rightarrow> nat \<Rightarrow> bool" and xs
  assume swo: "strict_weak_ordering lt"
  show "std_sort_post lt xs (sort_keeping_ties lt xs)"
    unfolding std_sort_post_def sort_keeping_ties_def
    by (induction xs) (simp_all add: mset_insert_before_equal sorted_insert_before_equal [OF swo])
qed

lemma scenario_sorts: "sorts_by_area sort_keeping_ties scenario"
  using sort_keeping_ties_contract by (rule contract_sorts_by_area)

section \<open>Equal areas in the ordering\<close>

text \<open>
  The grid locator returns the first covering slot of the ordering. Where \<^verbatim>\<open>std::sort\<close> has
  left slots of equal area in slot order this is the slot the linear locator returns; an
  ordering that is only sorted by area need not have them in slot order. The bounding box of
  a geometry is taken to contain every point the geometry covers.
\<close>

lemma grid_locator_stable:
  assumes so: "sorts_by_area std_sort d" and env: "envelope_sound cb env d p"
    and ties: "ties_in_slot_order d (GridPolygonDictionary_order std_sort d)"
  shows "grid_locator cb env std_sort kMin kMax d p id_in =
           SimplePolygonDictionary_find cb d p id_in"
proof (cases "fst (SimplePolygonDictionary_find cb d p id_in)")
  case False
  then have nf: "\<not> fst (grid_locator cb env std_sort kMin kMax d p id_in)"
    using grid_locator_found_iff [OF so env] find_found_iff [of cb d p id_in] by simp
  show ?thesis
  proof (rule prod_eqI)
    show "fst (grid_locator cb env std_sort kMin kMax d p id_in) =
          fst (SimplePolygonDictionary_find cb d p id_in)"
      using False nf by simp
    show "snd (grid_locator cb env std_sort kMin kMax d p id_in) =
          snd (SimplePolygonDictionary_find cb d p id_in)"
      using grid_locator_not_found [OF so env nf] find_not_found_id [OF False] by simp
  qed
next
  case True
  let ?os = "GridPolygonDictionary_order std_sort d"
  let ?G = "grid_locator cb env std_sort kMin kMax d p id_in"
  let ?S = "SimplePolygonDictionary_find cb d p id_in"
  have found: "fst ?G"
    using True grid_locator_found_iff [OF so env] find_found_iff [of cb d p id_in] by simp
  have w: "wins cb d p (snd ?S)"
    using True by (rule find_found_wins)
  then have cs: "covers cb d p (snd ?S)"
    by (simp add: wins_covers)
  have cg: "covers cb d p (snd ?G)"
    using grid_locator_covers [OF so env found] .
  have le: "areas d ! snd ?G \<le> areas d ! snd ?S"
    using grid_locator_smallest [OF so env found cs] .
  from w cg have "areas d ! snd ?S < areas d ! snd ?G \<or>
      (areas d ! snd ?S = areas d ! snd ?G \<and> snd ?S \<le> snd ?G)"
    unfolding wins_covers by blast
  with le have eq: "areas d ! snd ?S = areas d ! snd ?G" and sg: "snd ?S \<le> snd ?G"
    by auto
  have f: "fst (scan_candidates cb (polygons d) p ?os id_in)"
    using found unfolding grid_locator_scan [OF so env] .
  have mem: "snd ?S \<in> set ?os" "cb p (polygons d ! snd ?S)"
    using cs order_set [OF so] by (auto simp: covers_def)
  have "snd ?S = snd ?G \<or> (areas d ! snd ?G = areas d ! snd ?S \<longrightarrow> snd ?G < snd ?S)"
    using scan_candidates_sorted [OF ties [unfolded ties_in_slot_order_def] f mem]
    unfolding grid_locator_scan [OF so env] by blast
  with eq sg have same: "snd ?G = snd ?S" by auto
  show ?thesis
    by (rule prod_eqI) (use found True same in simp_all)
qed

section \<open>Seventeen equal areas\<close>

text \<open>
  On seventeen entries of the same square every slot covers the point \<open>(3, 3)\<close> and all areas
  are equal. The linear locator answers slot 0. The grid locator answers the slot that the
  sorting function has put first, whichever it is.
\<close>

lemma seventeen_fields:
  "polygons seventeen = replicate 17 polygon_A" "areas seventeen = replicate 17 100"
  by (simp_all add: seventeen_def load_def map_replicate_const polygon_A_area comp_def)

lemma seventeen_covers: "covers covered_by seventeen (3, 3) j \<longleftrightarrow> j < 17"
  by (auto simp: covers_def seventeen_fields polygon_A_covers)

lemma seventeen_linear:
  "SimplePolygonDictionary_find covered_by seventeen (3, 3) id_in = (True, 0)"
proof -
  let ?S = "SimplePolygonDictionary_find covered_by seventeen (3, 3) id_in"
  have f: "fst ?S"
    using find_found_iff [of covered_by seventeen "(3, 3)" id_in] seventeen_covers [of 0] by auto
  have "wins covered_by seventeen (3, 3) 0"
    unfolding wins_covers by (auto simp: seventeen_covers seventeen_fields)
  with find_found_wins [OF f] have "snd ?S = 0"
    by (rule wins_unique)
  with f show ?thesis
    by (simp add: prod_eq_iff)
qed

lemma seventeen_envelope_sound: "envelope_sound covered_by envelope seventeen (3, 3)"
  by (simp add: envelope_sound_def seventeen_fields polygon_A_envelope rect_contains_def)

lemma seventeen_grid:
  assumes "std_sort_contract std_sort"
  shows "grid_locator covered_by envelope std_sort kMin kMax seventeen (3, 3) id_in =
           (True, hd (GridPolygonDictionary_order std_sort seventeen))"
proof -
  let ?os = "GridPolygonDictionary_order std_sort seventeen"
  have so: "sorts_by_area std_sort seventeen"
    using assms by (rule contract_sorts_by_area)
  have set: "set ?os = {0..<17}"
    using order_set [OF so] by (simp add: seventeen_fields)
  then obtain c rest where os: "?os = c # rest"
    by (cases ?os) auto
  with set have "c < 17" by auto
  then have "covered_by (3, 3) (polygons seventeen ! c)"
    using seventeen_covers [of c] by (simp add: covers_def)
  then have "scan_candidates covered_by (polygons seventeen) (3, 3) ?os id_in = (True, c)"
    unfolding os by simp
  then show ?thesis
    unfolding grid_locator_scan [OF so seventeen_envelope_sound] os by simp
qed

section \<open>The ordering and the leaves\<close>

lemma Cell_find_in_leaves:
  "rect_contains r x y \<Longrightarrow>
     \<exists>r'. rect_contains r' x y \<and>
          (r', Cell_find (build_cell boxes os mi md depth r) x y)
            \<in> set (leaves (build_cell boxes os mi md depth r))"
proof (induction boxes os mi md depth r rule: build_cell.induct)
  case (1 boxes os mi md depth r)
  let ?cands = "filter (\<lambda>i. rect_intersects (boxes ! i) r) os"
  show ?case
  proof (cases "mi < length ?cands \<and> depth < md")
    case False
    then have "build_cell boxes os mi md depth r = Leaf r ?cands"
      by (subst build_cell.simps) (auto simp: Let_def)
    with "1.prems" show ?thesis by auto
  next
    case True
    let ?q = "quadrant r (\<not> x < mid_x r) (\<not> y < mid_y r)"
    let ?b = "\<lambda>hx hy. build_cell boxes os mi md (Suc depth) (quadrant r hx hy)"
    have node: "build_cell boxes os mi md depth r =
                  Node r (?b False False) (?b False True) (?b True False) (?b True True)"
      using True by (subst build_cell.simps) (simp add: Let_def)
    have inq: "rect_contains ?q x y"
      using "1.prems" by (rule quadrant_contains)
    show ?thesis
    proof (cases "x < mid_x r"; cases "y < mid_y r")
      assume a: "x < mid_x r" "y < mid_y r"
      from "1.IH"(1) [OF refl True] inq a show ?thesis
        unfolding node by auto
    next
      assume a: "x < mid_x r" "\<not> y < mid_y r"
      from "1.IH"(2) [OF refl True] inq a show ?thesis
        unfolding node by auto
    next
      assume a: "\<not> x < mid_x r" "y < mid_y r"
      from "1.IH"(3) [OF refl True] inq a show ?thesis
        unfolding node by auto
    next
      assume a: "\<not> x < mid_x r" "\<not> y < mid_y r"
      from "1.IH"(4) [OF refl True] inq a show ?thesis
        unfolding node by auto
    qed
  qed
qed

lemma leaves_of_grid:
  assumes so: "sorts_by_area std_sort d"
    and leaf: "leaf \<in> set (leaves (grid_root (GridPolygonDictionary env std_sort kMin kMax d)))"
  shows "snd leaf =
           filter (\<lambda>i. rect_intersects (env (polygons d ! i)) (fst leaf))
             (GridPolygonDictionary_order std_sort d)"
proof -
  let ?os = "GridPolygonDictionary_order std_sort d"
  have "(fst leaf, snd leaf) \<in>
          set (leaves (build_cell (map env (polygons d)) ?os kMin kMax 0 (root_rect env d)))"
    using leaf by (simp add: grid_root_eq)
  then have "snd leaf = filter (\<lambda>i. rect_intersects (map env (polygons d) ! i) (fst leaf)) ?os"
    by (rule leaves_build)
  also have "\<dots> = filter (\<lambda>i. rect_intersects (env (polygons d ! i)) (fst leaf)) ?os"
    using order_set [OF so] by (intro filter_cong) auto
  finally show ?thesis .
qed

lemma grid_find_leaf:
  assumes "GridRoot_find (GridPolygonDictionary env std_sort kMin kMax d) x y = Some cands"
  shows "\<exists>leaf \<in> set (leaves (grid_root (GridPolygonDictionary env std_sort kMin kMax d))).
           rect_contains (fst leaf) x y \<and> snd leaf = cands"
proof -
  let ?os = "GridPolygonDictionary_order std_sort d"
  let ?root = "build_cell (map env (polygons d)) ?os kMin kMax 0 (root_rect env d)"
  from assms have inside: "rect_contains (root_rect env d) x y" and c: "cands = Cell_find ?root x y"
    by (auto simp: GridRoot_find_def grid_root_eq split: if_splits)
  from Cell_find_in_leaves [OF inside, of "map env (polygons d)" ?os kMin kMax 0]
  obtain r' where "rect_contains r' x y" "(r', Cell_find ?root x y) \<in> set (leaves ?root)"
    by blast
  then show ?thesis
    unfolding c grid_root_eq by force
qed

lemma scenario_leaves:
  "leaves (grid_root (GridPolygonDictionary envelope sort_keeping_ties 1 1 scenario)) =
     [(\<lparr>min_x = 0, min_y = 0, max_x = 5, max_y = 5\<rparr>, [1, 0]),
      (\<lparr>min_x = 0, min_y = 5, max_x = 5, max_y = 10\<rparr>, [0]),
      (\<lparr>min_x = 5, min_y = 0, max_x = 10, max_y = 5\<rparr>, [0]),
      (\<lparr>min_x = 5, min_y = 5, max_x = 10, max_y = 10\<rparr>, [0])]"
  by (simp add: grid_root_eq scenario_root scenario_order build_cell.simps scenario_fields
      polygon_A_envelope polygon_B_envelope rect_intersects_def quadrant_def mid_x_def mid_y_def)

lemma scenario_grid_find:
  "GridRoot_find (GridPolygonDictionary envelope sort_keeping_ties 1 1 scenario) 3 3 = Some [1, 0]"
  by (simp add: GridRoot_find_def grid_root_eq scenario_root scenario_order Cell_find_build_step
      rect_contains_def rect_intersects_def quadrant_def mid_x_def mid_y_def scenario_fields
      polygon_A_envelope polygon_B_envelope)

text \<open>
  C5. The ordering the grid index is initialised with is a permutation of all slots
  \<open>0, .., n - 1\<close> in which the area never decreases from one rank to the next: the comparison
  of the constructor is a strict weak ordering, so this is what the library's sort returns.
  The candidate list of every leaf is the subsequence of that ordering made of the slots
  whose bounding box meets the leaf's rectangle, so it is in ascending order of area as well.
  A query whose point lies in the root rectangle reaches the candidate list of a leaf around
  the point; it finds a polygon exactly if a candidate of that leaf covers the point, and it
  returns the first covering candidate of the list, which has the least area among the
  covering candidates of the leaf: the query compares no areas.
\<close>

theorem ordering_invariant:
  assumes wf: "well_formed d" and contract: "std_sort_contract std_sort"
  shows "mset (GridPolygonDictionary_order std_sort d) = mset [0..<length (polygons d)] \<and>
         (\<forall>k. Suc k < length (polygons d) \<longrightarrow>
            areas d ! (GridPolygonDictionary_order std_sort d ! k) \<le>
            areas d ! (GridPolygonDictionary_order std_sort d ! Suc k)) \<and>
         (\<forall>leaf \<in> set (leaves (grid_root (GridPolygonDictionary env std_sort kMin kMax d))).
            snd leaf =
              filter (\<lambda>i. rect_intersects (env (polygons d ! i)) (fst leaf))
                (GridPolygonDictionary_order std_sort d) \<and>
            subseq (snd leaf) (GridPolygonDictionary_order std_sort d) \<and>
            sorted_wrt (\<lambda>a b. areas d ! a \<le> areas d ! b) (snd leaf)) \<and>
         (rect_contains (root_rect env d) (fst p) (snd p) \<longrightarrow>
            (\<exists>cands.
               GridRoot_find (GridPolygonDictionary env std_sort kMin kMax d) (fst p) (snd p)
                 = Some cands)) \<and>
         (\<forall>cands.
            GridRoot_find (GridPolygonDictionary env std_sort kMin kMax d) (fst p) (snd p)
              = Some cands \<longrightarrow>
            (\<exists>leaf \<in> set (leaves (grid_root (GridPolygonDictionary env std_sort kMin kMax d))).
               rect_contains (fst leaf) (fst p) (snd p) \<and> snd leaf = cands) \<and>
            (fst (GridPolygonDictionary_find cb
                   (GridRoot_find (GridPolygonDictionary env std_sort kMin kMax d)) d p id_in)
               \<longleftrightarrow> (\<exists>c \<in> set cands. cb p (polygons d ! c))) \<and>
            (fst (GridPolygonDictionary_find cb
                   (GridRoot_find (GridPolygonDictionary env std_sort kMin kMax d)) d p id_in)
               \<longrightarrow>
               cb p (polygons d ! snd (GridPolygonDictionary_find cb
                   (GridRoot_find (GridPolygonDictionary env std_sort kMin kMax d)) d p id_in)) \<and>
               (\<exists>pre post.
                  cands = pre @ snd (GridPolygonDictionary_find cb
                     (GridRoot_find (GridPolygonDictionary env std_sort kMin kMax d)) d p id_in)
                     # post \<and>
                  (\<forall>c \<in> set pre. \<not> cb p (polygons d ! c))) \<and>
               (\<forall>c \<in> set cands. cb p (polygons d ! c) \<longrightarrow>
                  areas d ! snd (GridPolygonDictionary_find cb
                     (GridRoot_find (GridPolygonDictionary env std_sort kMin kMax d)) d p id_in)
                    \<le> areas d ! c)))"
proof -
  let ?os = "GridPolygonDictionary_order std_sort d"
  let ?g = "GridPolygonDictionary env std_sort kMin kMax d"
  let ?F = "GridPolygonDictionary_find cb (GridRoot_find ?g) d p id_in"
  have so: "sorts_by_area std_sort d"
    using contract by (rule contract_sorts_by_area)
  have perm: "mset ?os = mset [0..<length (polygons d)]"
    using so by (simp add: sorts_by_area_def std_sort_post_def)
  then have len: "length ?os = length (polygons d)"
    by (metis length_upt mset_eq_length minus_nat.diff_0)
  have succ: "areas d ! (?os ! k) \<le> areas d ! (?os ! Suc k)" if "Suc k < length (polygons d)" for k
    using order_sorted [OF so] that len by (simp add: sorted_wrt_iff_nth_less)
  have leafs: "snd leaf = filter (\<lambda>i. rect_intersects (env (polygons d ! i)) (fst leaf)) ?os \<and>
               subseq (snd leaf) ?os \<and> sorted_wrt (\<lambda>a b. areas d ! a \<le> areas d ! b) (snd leaf)"
    if leaf: "leaf \<in> set (leaves (grid_root ?g))" for leaf
  proof -
    have eq: "snd leaf = filter (\<lambda>i. rect_intersects (env (polygons d ! i)) (fst leaf)) ?os"
      using so leaf by (rule leaves_of_grid)
    have "subseq (snd leaf) ?os"
      unfolding eq by (rule subseq_filter_left)
    moreover have "sorted_wrt (\<lambda>a b. areas d ! a \<le> areas d ! b) (snd leaf)"
      unfolding eq using order_sorted [OF so] by (rule sorted_wrt_filter)
    ultimately show ?thesis using eq by blast
  qed
  have query: "(\<exists>leaf \<in> set (leaves (grid_root ?g)).
                  rect_contains (fst leaf) (fst p) (snd p) \<and> snd leaf = cands) \<and>
               (fst ?F \<longleftrightarrow> (\<exists>c \<in> set cands. cb p (polygons d ! c))) \<and>
               (fst ?F \<longrightarrow>
                  cb p (polygons d ! snd ?F) \<and>
                  (\<exists>pre post. cands = pre @ snd ?F # post \<and>
                     (\<forall>c \<in> set pre. \<not> cb p (polygons d ! c))) \<and>
                  (\<forall>c \<in> set cands. cb p (polygons d ! c) \<longrightarrow> areas d ! snd ?F \<le> areas d ! c))"
    if found: "GridRoot_find ?g (fst p) (snd p) = Some cands" for cands
  proof -
    from grid_find_leaf [OF found] obtain leaf where
      leaf: "leaf \<in> set (leaves (grid_root ?g))" "rect_contains (fst leaf) (fst p) (snd p)"
            "snd leaf = cands"
      by blast
    have "sorted_wrt (\<lambda>a b. areas d ! a \<le> areas d ! b) (snd leaf)"
      using leafs [OF leaf(1)] by blast
    then have sorted: "sorted_wrt (\<lambda>a b. areas d ! a \<le> areas d ! b) cands"
      unfolding leaf(3) .
    have F: "?F = scan_candidates cb (polygons d) p cands id_in"
      using found by (simp add: GridPolygonDictionary_find_def)
    have iff: "fst ?F \<longleftrightarrow> (\<exists>c \<in> set cands. cb p (polygons d ! c))"
      unfolding F by (rule scan_candidates_found_iff)
    have first: "cb p (polygons d ! snd ?F) \<and>
                 (\<exists>pre post. cands = pre @ snd ?F # post \<and> (\<forall>c \<in> set pre. \<not> cb p (polygons d ! c)))"
      if f: "fst ?F"
      using scan_candidates_first [of cb "polygons d" p cands id_in] f unfolding F by blast
    have least: "areas d ! snd ?F \<le> areas d ! c"
      if f: "fst ?F" and c: "c \<in> set cands" "cb p (polygons d ! c)" for c
    proof -
      have f': "fst (scan_candidates cb (polygons d) p cands id_in)"
        using f unfolding F .
      from scan_candidates_sorted [OF sorted f' c(1) c(2)] show ?thesis
        unfolding F by auto
    qed
    show ?thesis
      using leaf iff first least by blast
  qed
  have reach: "\<exists>cands. GridRoot_find ?g (fst p) (snd p) = Some cands"
    if "rect_contains (root_rect env d) (fst p) (snd p)"
    using that by (simp add: GridRoot_find_def grid_root_eq)
  show ?thesis
    using perm succ leafs reach query by blast
qed

theorem ordering_invariant_witness:
  "well_formed scenario \<and> std_sort_contract sort_keeping_ties \<and>
   GridPolygonDictionary_order sort_keeping_ties scenario = [1, 0] \<and>
   areas scenario ! 1 \<le> areas scenario ! 0 \<and>
   rect_contains (root_rect envelope scenario) 3 3 \<and>
   GridRoot_find (GridPolygonDictionary envelope sort_keeping_ties 1 1 scenario) 3 3 = Some [1, 0] \<and>
   (\<lparr>min_x = 0, min_y = 0, max_x = 5, max_y = 5\<rparr>, [1, 0])
      \<in> set (leaves (grid_root (GridPolygonDictionary envelope sort_keeping_ties 1 1 scenario))) \<and>
   subseq [1, 0] (GridPolygonDictionary_order sort_keeping_ties scenario) \<and>
   sorted_wrt (\<lambda>a b. areas scenario ! a \<le> areas scenario ! b) [1, 0] \<and>
   fst (GridPolygonDictionary_find covered_by
         (GridRoot_find (GridPolygonDictionary envelope sort_keeping_ties 1 1 scenario))
         scenario (3, 3) 7) \<and>
   GridPolygonDictionary_find covered_by
     (GridRoot_find (GridPolygonDictionary envelope sort_keeping_ties 1 1 scenario))
     scenario (3, 3) 7 = (True, 1)"
proof -
  let ?g = "GridPolygonDictionary envelope sort_keeping_ties 1 1 scenario"
  let ?leaf = "(\<lparr>min_x = 0, min_y = 0, max_x = 5, max_y = 5\<rparr>, [1::nat, 0])"
  note inv = ordering_invariant [OF scenario_well_formed sort_keeping_ties_contract,
      of envelope 1 1 "(3, 3)" covered_by 7]
  have leaf: "?leaf \<in> set (leaves (grid_root ?g))"
    using scenario_leaves by simp
  have cell: "GridRoot_find ?g (fst (3, 3)) (snd (3, 3)) = Some [1, 0]"
    using scenario_grid_find by simp
  from inv leaf
  have "subseq (snd ?leaf) (GridPolygonDictionary_order sort_keeping_ties scenario) \<and>
        sorted_wrt (\<lambda>a b. areas scenario ! a \<le> areas scenario ! b) (snd ?leaf)"
    by blast
  then have l: "subseq [1, 0] (GridPolygonDictionary_order sort_keeping_ties scenario) \<and>
        sorted_wrt (\<lambda>a b. areas scenario ! a \<le> areas scenario ! b) [1, 0]"
    by simp
  have "\<exists>c \<in> set [1, 0]. covered_by (3, 3) (polygons scenario ! c)"
    by (simp add: scenario_fields polygon_A_covers polygon_B_covers)
  with inv cell
  have f: "fst (GridPolygonDictionary_find covered_by (GridRoot_find ?g) scenario (3, 3) 7)"
    by blast
  have r: "GridPolygonDictionary_find covered_by (GridRoot_find ?g) scenario (3, 3) 7 = (True, 1)"
    using scenario_grid_find
    by (simp add: GridPolygonDictionary_find_def scenario_fields polygon_B_covers)
  have a: "areas scenario ! 1 \<le> areas scenario ! 0"
    by (simp add: scenario_fields)
  have inside: "rect_contains (root_rect envelope scenario) 3 3"
    by (simp add: scenario_root rect_contains_def)
  show ?thesis
    using scenario_well_formed sort_keeping_ties_contract scenario_order a inside
      scenario_grid_find leaf l f r
    by blast
qed

section \<open>The claim on layout creation\<close>

lemma createLayout_no_name:
  "config (config_prefix @ ''.name'') = None \<Longrightarrow>
     createLayout getName DictionaryLifetime make_dictionary unnamed dict_struct config
       config_prefix source_ptr =
       Inl (NotFoundException (config_prefix @ ''.name''))"
  by (simp add: createLayout_def getString_def)

lemma createLayout_no_key:
  "config (config_prefix @ ''.name'') = Some name \<Longrightarrow> key dict_struct = None \<Longrightarrow>
     createLayout getName DictionaryLifetime make_dictionary unnamed dict_struct config
       config_prefix source_ptr =
       Inl (Exception (quoted ''key'' @ '' is required for a polygon dictionary'') BAD_ARGUMENTS)"
  by (simp add: createLayout_def getString_def)

lemma createLayout_key_size:
  "config (config_prefix @ ''.name'') = Some name \<Longrightarrow> key dict_struct = Some k \<Longrightarrow>
     length k \<noteq> 1 \<Longrightarrow>
     createLayout getName DictionaryLifetime make_dictionary unnamed dict_struct config
       config_prefix source_ptr =
       Inl (Exception
             (''The '' @ quoted ''key'' @
              '' should consist of a single attribute for a polygon dictionary'')
             BAD_ARGUMENTS)"
  by (simp add: createLayout_def getString_def)

lemma createLayout_key_type:
  "config (config_prefix @ ''.name'') = Some name \<Longrightarrow> key dict_struct = Some [a] \<Longrightarrow>
     \<not> allowed_key_type (attr_type a) \<Longrightarrow>
     createLayout getName DictionaryLifetime make_dictionary unnamed dict_struct config
       config_prefix source_ptr =
       Inl (Exception
             (''The key type '' @ getName (attr_type a) @
              '' is not one of the following allowed types for a polygon dictionary: '' @
              getName multi_polygon_array @ '' '' @
              getName multi_polygon_tuple @ '' '' @
              getName simple_polygon_array @ '' '' @
              getName simple_polygon_tuple @ '' '')
             BAD_ARGUMENTS)"
  by (simp add: createLayout_def getString_def allowed_key_type_def Let_def)

lemma createLayout_range:
  "config (config_prefix @ ''.name'') = Some name \<Longrightarrow> key dict_struct = Some [a] \<Longrightarrow>
     allowed_key_type (attr_type a) \<Longrightarrow>
     range_min dict_struct \<noteq> None \<or> range_max dict_struct \<noteq> None \<Longrightarrow>
     createLayout getName DictionaryLifetime make_dictionary unnamed dict_struct config
       config_prefix source_ptr =
       Inl (Exception
             (name @ '': elements range_min and range_max should be defined only '' @
              ''for a dictionary of layout '' @ quoted ''range_hashed'')
             BAD_ARGUMENTS)"
  by (auto simp: createLayout_def getString_def allowed_key_type_def Let_def)

lemma createLayout_proceeds:
  "config (config_prefix @ ''.name'') = Some name \<Longrightarrow> key dict_struct = Some [a] \<Longrightarrow>
     allowed_key_type (attr_type a) \<Longrightarrow>
     range_min dict_struct = None \<Longrightarrow> range_max dict_struct = None \<Longrightarrow>
     createLayout getName DictionaryLifetime make_dictionary unnamed dict_struct config
       config_prefix source_ptr =
       (case DictionaryLifetime config (config_prefix @ ''.lifetime'') of
          Inl e \<Rightarrow> Inl e
        | Inr dict_lifetime \<Rightarrow>
            make_dictionary (getString_default config (config_prefix @ ''.database'') []) name
              dict_struct source_ptr dict_lifetime
              (input_type_of (attr_type a)) (point_type_of (attr_type a)))"
  by (cases "DictionaryLifetime config (config_prefix @ ''.lifetime'')")
     (auto simp: createLayout_def getString_def allowed_key_type_def Let_def
        input_type_of_def point_type_of_def
        multi_polygon_array_def multi_polygon_tuple_def simple_polygon_array_def
        simple_polygon_tuple_def)

text \<open>
  C8, as the code has it. \<^verbatim>\<open>createLayout\<close> first reads the name of the dictionary from the
  configuration, and without it fails with the \<^verbatim>\<open>NotFoundException\<close> of that lookup, whatever
  the key. With the name, it fails fast with a descriptive error, the \<^verbatim>\<open>BAD_ARGUMENTS\<close>
  exception whose message names the cause, whenever the structure has no key, the key does
  not consist of a single attribute, the type of the key is not one of the four polygon
  shapes, or \<^verbatim>\<open>range_min\<close> or \<^verbatim>\<open>range_max\<close> is defined; no dictionary is constructed then. For
  a single key of one of the four shapes and no range, construction proceeds: the function
  reads the lifetime and calls the constructor of the dictionary with the input type and
  the point type of the shape, and its result is theirs.
\<close>

theorem createLayout_outcome:
  "(config (config_prefix @ ''.name'') = None \<longrightarrow>
      createLayout getName DictionaryLifetime make_dictionary unnamed dict_struct config
        config_prefix source_ptr =
        Inl (NotFoundException (config_prefix @ ''.name''))) \<and>
   (\<forall>name. config (config_prefix @ ''.name'') = Some name \<longrightarrow>
      (key dict_struct = None \<longrightarrow>
         createLayout getName DictionaryLifetime make_dictionary unnamed dict_struct config
           config_prefix source_ptr =
           Inl (Exception (quoted ''key'' @ '' is required for a polygon dictionary'')
                 BAD_ARGUMENTS)) \<and>
      (\<forall>k. key dict_struct = Some k \<and> length k \<noteq> 1 \<longrightarrow>
         createLayout getName DictionaryLifetime make_dictionary unnamed dict_struct config
           config_prefix source_ptr =
           Inl (Exception
                 (''The '' @ quoted ''key'' @
                  '' should consist of a single attribute for a polygon dictionary'')
                 BAD_ARGUMENTS)) \<and>
      (\<forall>a. key dict_struct = Some [a] \<and> \<not> allowed_key_type (attr_type a) \<longrightarrow>
         createLayout getName DictionaryLifetime make_dictionary unnamed dict_struct config
           config_prefix source_ptr =
           Inl (Exception
                 (''The key type '' @ getName (attr_type a) @
                  '' is not one of the following allowed types for a polygon dictionary: '' @
                  getName multi_polygon_array @ '' '' @
                  getName multi_polygon_tuple @ '' '' @
                  getName simple_polygon_array @ '' '' @
                  getName simple_polygon_tuple @ '' '')
                 BAD_ARGUMENTS)) \<and>
      (\<forall>a. key dict_struct = Some [a] \<and> allowed_key_type (attr_type a) \<and>
           (range_min dict_struct \<noteq> None \<or> range_max dict_struct \<noteq> None) \<longrightarrow>
         createLayout getName DictionaryLifetime make_dictionary unnamed dict_struct config
           config_prefix source_ptr =
           Inl (Exception
                 (name @ '': elements range_min and range_max should be defined only '' @
                  ''for a dictionary of layout '' @ quoted ''range_hashed'')
                 BAD_ARGUMENTS)) \<and>
      ((key dict_struct = None \<or>
        (\<exists>k. key dict_struct = Some k \<and>
             (length k \<noteq> 1 \<or> \<not> allowed_key_type (attr_type (k ! 0)))) \<or>
        range_min dict_struct \<noteq> None \<or> range_max dict_struct \<noteq> None) \<longrightarrow>
         (\<exists>msg. createLayout getName DictionaryLifetime make_dictionary unnamed dict_struct
                  config config_prefix source_ptr = Inl (Exception msg BAD_ARGUMENTS))) \<and>
      (\<forall>a. key dict_struct = Some [a] \<and> allowed_key_type (attr_type a) \<and>
           range_min dict_struct = None \<and> range_max dict_struct = None \<longrightarrow>
         createLayout getName DictionaryLifetime make_dictionary unnamed dict_struct config
           config_prefix source_ptr =
           (case DictionaryLifetime config (config_prefix @ ''.lifetime'') of
              Inl e \<Rightarrow> Inl e
            | Inr dict_lifetime \<Rightarrow>
                make_dictionary (getString_default config (config_prefix @ ''.database'') [])
                  name dict_struct source_ptr dict_lifetime
                  (input_type_of (attr_type a)) (point_type_of (attr_type a)))))"
proof (intro conjI allI impI)
  assume "config (config_prefix @ ''.name'') = None"
  then show "createLayout getName DictionaryLifetime make_dictionary unnamed dict_struct config
        config_prefix source_ptr = Inl (NotFoundException (config_prefix @ ''.name''))"
    by (rule createLayout_no_name)
next
  fix name
  assume n: "config (config_prefix @ ''.name'') = Some name"
  assume "key dict_struct = None"
  with n show "createLayout getName DictionaryLifetime make_dictionary unnamed dict_struct config
      config_prefix source_ptr =
      Inl (Exception (quoted ''key'' @ '' is required for a polygon dictionary'') BAD_ARGUMENTS)"
    by (rule createLayout_no_key)
next
  fix name k
  assume n: "config (config_prefix @ ''.name'') = Some name"
  assume "key dict_struct = Some k \<and> length k \<noteq> 1"
  then have "key dict_struct = Some k" "length k \<noteq> 1" by simp_all
  with n show "createLayout getName DictionaryLifetime make_dictionary unnamed dict_struct config
      config_prefix source_ptr =
      Inl (Exception
            (''The '' @ quoted ''key'' @
             '' should consist of a single attribute for a polygon dictionary'')
            BAD_ARGUMENTS)"
    by (rule createLayout_key_size)
next
  fix name a
  assume n: "config (config_prefix @ ''.name'') = Some name"
  assume "key dict_struct = Some [a] \<and> \<not> allowed_key_type (attr_type a)"
  then have "key dict_struct = Some [a]" "\<not> allowed_key_type (attr_type a)" by simp_all
  with n show "createLayout getName DictionaryLifetime make_dictionary unnamed dict_struct config
      config_prefix source_ptr =
      Inl (Exception
            (''The key type '' @ getName (attr_type a) @
             '' is not one of the following allowed types for a polygon dictionary: '' @
             getName multi_polygon_array @ '' '' @
             getName multi_polygon_tuple @ '' '' @
             getName simple_polygon_array @ '' '' @
             getName simple_polygon_tuple @ '' '')
            BAD_ARGUMENTS)"
    by (rule createLayout_key_type)
next
  fix name a
  assume n: "config (config_prefix @ ''.name'') = Some name"
  assume "key dict_struct = Some [a] \<and> allowed_key_type (attr_type a) \<and>
           (range_min dict_struct \<noteq> None \<or> range_max dict_struct \<noteq> None)"
  then have "key dict_struct = Some [a]" "allowed_key_type (attr_type a)"
    "range_min dict_struct \<noteq> None \<or> range_max dict_struct \<noteq> None" by simp_all
  with n show "createLayout getName DictionaryLifetime make_dictionary unnamed dict_struct config
      config_prefix source_ptr =
      Inl (Exception
            (name @ '': elements range_min and range_max should be defined only '' @
             ''for a dictionary of layout '' @ quoted ''range_hashed'')
            BAD_ARGUMENTS)"
    by (rule createLayout_range)
next
  fix name
  assume n: "config (config_prefix @ ''.name'') = Some name"
  assume bad: "key dict_struct = None \<or>
        (\<exists>k. key dict_struct = Some k \<and>
             (length k \<noteq> 1 \<or> \<not> allowed_key_type (attr_type (k ! 0)))) \<or>
        range_min dict_struct \<noteq> None \<or> range_max dict_struct \<noteq> None"
  show "\<exists>msg. createLayout getName DictionaryLifetime make_dictionary unnamed dict_struct
                  config config_prefix source_ptr = Inl (Exception msg BAD_ARGUMENTS)"
  proof (cases "key dict_struct")
    case None
    from createLayout_no_key [where config = config and config_prefix = config_prefix
          and dict_struct = dict_struct and name = name, OF n None]
    show ?thesis by (rule exI)
  next
    case (Some k)
    show ?thesis
    proof (cases "length k = 1")
      case False
      from createLayout_key_size [where config = config and config_prefix = config_prefix
          and dict_struct = dict_struct and name = name and k = k,
          OF n Some False]
      show ?thesis by (rule exI)
    next
      case True
      then obtain a where a: "k = [a]" by (cases k) auto
      have key: "key dict_struct = Some [a]"
        using Some a by simp
      show ?thesis
      proof (cases "allowed_key_type (attr_type a)")
        case False
        from createLayout_key_type [where config = config and config_prefix = config_prefix
          and dict_struct = dict_struct and name = name and a = a,
            OF n key False]
        show ?thesis by (rule exI)
      next
        case allowed: True
        with bad Some a
        have "range_min dict_struct \<noteq> None \<or> range_max dict_struct \<noteq> None"
          by auto
        then have r: "range_min dict_struct \<noteq> None \<or> range_max dict_struct \<noteq> None" .
        from createLayout_range [where config = config and config_prefix = config_prefix
          and dict_struct = dict_struct and name = name and a = a,
            OF n key allowed r]
        show ?thesis by (rule exI)
      qed
    qed
  qed
next
  fix name a
  assume n: "config (config_prefix @ ''.name'') = Some name"
  assume "key dict_struct = Some [a] \<and> allowed_key_type (attr_type a) \<and>
           range_min dict_struct = None \<and> range_max dict_struct = None"
  then have "key dict_struct = Some [a]" "allowed_key_type (attr_type a)"
    "range_min dict_struct = None" "range_max dict_struct = None" by simp_all
  with n show "createLayout getName DictionaryLifetime make_dictionary unnamed dict_struct config
      config_prefix source_ptr =
      (case DictionaryLifetime config (config_prefix @ ''.lifetime'') of
         Inl e \<Rightarrow> Inl e
       | Inr dict_lifetime \<Rightarrow>
           make_dictionary (getString_default config (config_prefix @ ''.database'') [])
             name dict_struct source_ptr dict_lifetime
             (input_type_of (attr_type a)) (point_type_of (attr_type a)))"
    by (rule createLayout_proceeds)
qed

theorem createLayout_outcome_witness:
  "example_config (''dictionary'' @ ''.name'') = Some ''regions'' \<and>
   key (example_structure simple_polygon_tuple) =
     Some [\<lparr>attr_name = ''polygon'', attr_type = simple_polygon_tuple\<rparr>] \<and>
   allowed_key_type simple_polygon_tuple \<and>
   range_min (example_structure simple_polygon_tuple) = None \<and>
   range_max (example_structure simple_polygon_tuple) = None \<and>
   createLayout print_type read_lifetime record_arguments ''regions''
     (example_structure simple_polygon_tuple) example_config ''dictionary'' () =
     Inr ([], ''regions'', (''300'', ''300''), InputType_SimplePolygon, PointType_Tuple) \<and>
   key ((example_structure simple_polygon_tuple)\<lparr>key := None\<rparr>) = None \<and>
   createLayout print_type read_lifetime record_arguments ''regions''
     ((example_structure simple_polygon_tuple)\<lparr>key := None\<rparr>) example_config ''dictionary'' () =
     Inl (Exception (quoted ''key'' @ '' is required for a polygon dictionary'') BAD_ARGUMENTS)"
proof -
  let ?a = "\<lparr>attr_name = ''polygon'', attr_type = simple_polygon_tuple\<rparr>"
  have n: "example_config (''dictionary'' @ ''.name'') = Some ''regions''"
    by (simp add: example_config_def)
  have k: "key (example_structure simple_polygon_tuple) = Some [?a]"
    by (simp add: example_structure_def)
  have a: "allowed_key_type simple_polygon_tuple"
    by (simp add: allowed_key_type_def)
  have r: "range_min (example_structure simple_polygon_tuple) = None"
          "range_max (example_structure simple_polygon_tuple) = None"
    by (simp_all add: example_structure_def)
  have nk: "key ((example_structure simple_polygon_tuple)\<lparr>key := None\<rparr>) = None"
    by simp
  have shape: "input_type_of simple_polygon_tuple = InputType_SimplePolygon"
              "point_type_of simple_polygon_tuple = PointType_Tuple"
    by (simp_all add: input_type_of_def point_type_of_def simple_polygon_tuple_def
        multi_polygon_array_def multi_polygon_tuple_def simple_polygon_array_def)
  have life: "read_lifetime example_config (''dictionary'' @ ''.lifetime'') = Inr (''300'', ''300'')"
    by (simp add: read_lifetime_def example_config_def getString_def)
  have db: "getString_default example_config (''dictionary'' @ ''.database'') [] = []"
    by (simp add: getString_default_def example_config_def)
  have prem: "key (example_structure simple_polygon_tuple) = Some [?a] \<and>
      allowed_key_type (attr_type ?a) \<and>
      range_min (example_structure simple_polygon_tuple) = None \<and>
      range_max (example_structure simple_polygon_tuple) = None"
    using k a r by simp
  note good = createLayout_outcome [where config = example_config
      and config_prefix = "''dictionary''"
      and dict_struct = "example_structure simple_polygon_tuple" and getName = print_type
      and DictionaryLifetime = read_lifetime and make_dictionary = record_arguments
      and unnamed = "''regions''" and source_ptr = "()",
      THEN conjunct2, THEN spec, THEN mp, OF n]
  note proceeds = good [THEN conjunct2, THEN conjunct2, THEN conjunct2, THEN conjunct2,
      THEN conjunct2, THEN spec, THEN mp, OF prem]
  have ok: "createLayout print_type read_lifetime record_arguments ''regions''
     (example_structure simple_polygon_tuple) example_config ''dictionary'' () =
     Inr ([], ''regions'', (''300'', ''300''), InputType_SimplePolygon, PointType_Tuple)"
    unfolding proceeds life db by (simp add: shape record_arguments_def)
  note no_key = createLayout_outcome [where config = example_config
      and config_prefix = "''dictionary''"
      and dict_struct = "(example_structure simple_polygon_tuple)\<lparr>key := None\<rparr>"
      and getName = print_type and DictionaryLifetime = read_lifetime
      and make_dictionary = record_arguments and unnamed = "''regions''" and source_ptr = "()",
      THEN conjunct2, THEN spec, THEN mp, OF n, THEN conjunct1, THEN mp, OF nk]
  show ?thesis
    by (intro conjI) (rule n k a r ok nk no_key)+
qed

text \<open>
  C8 as stated fails: a configuration with a single key of one of the four shapes and no
  range, but without the name of the dictionary, does not proceed. \<^verbatim>\<open>createLayout\<close> throws
  the \<^verbatim>\<open>NotFoundException\<close> of the lookup of the name.
\<close>

theorem createLayout_outcome_counterexample:
  "createLayout print_type read_lifetime record_arguments ''regions''
     (example_structure simple_polygon_array) [''dictionary.lifetime'' \<mapsto> ''300''] ''dictionary'' () =
     Inl (NotFoundException ''dictionary.name'')"
  by (simp add: createLayout_def getString_def)

section \<open>The claim on the equality of polygons\<close>

lemma fold_emplace_back:
  "fold (\<lambda>i res_data. res_data @ [f i]) xs acc = acc @ map f xs"
  by (induction xs arbitrary: acc) simp_all

lemma executeImpl_map:
  "executeImpl correct equals first second input_rows_count =
     map (\<lambda>i. if equals (correct (first ! i)) (correct (second ! i)) then 1 else 0)
       [0..<input_rows_count]"
  by (simp add: executeImpl_def fold_emplace_back)

lemma correct_polygon_A:
  "correct_geometry polygon_A = [([(0, 0), (0, 10), (10, 10), (10, 0), (0, 0)], [])]"
  by (simp add: correct_geometry_def correct_ring_def close_ring_def polygon_A_def
      shoelace_def ring_edges_def)

lemma correct_polygon_A_reversed:
  "correct_geometry polygon_A_reversed = [([(0, 0), (0, 10), (10, 10), (10, 0), (0, 0)], [])]"
  by (simp add: correct_geometry_def correct_ring_def close_ring_def polygon_A_reversed_def
      shoelace_def ring_edges_def)

lemma correct_polygon_B:
  "correct_geometry polygon_B = [([(2, 2), (2, 4), (4, 4), (4, 2), (2, 2)], [])]"
  by (simp add: correct_geometry_def correct_ring_def close_ring_def polygon_B_def
      shoelace_def ring_edges_def)

text \<open>
  C9. The polygon equality function takes exactly two arguments and, for every input row,
  applies the normalisation \<^verbatim>\<open>correct\<close> to both geometries before it tests them with
  \<^verbatim>\<open>equals\<close>; the row of the result is 1 if the normalised geometries are equal and 0
  otherwise. (That \<^verbatim>\<open>correct\<close> is idempotent is a property of the geometry library; the
  statement holds for every \<open>correct\<close> and \<open>equals\<close>.)
\<close>

theorem polygons_equals_rows:
  assumes "input_rows_count \<le> length first" and "input_rows_count \<le> length second"
  shows "getNumberOfArguments = 2 \<and> \<not> isVariadic \<and>
         length (executeImpl correct equals first second input_rows_count) = input_rows_count \<and>
         (\<forall>i < input_rows_count.
            executeImpl correct equals first second input_rows_count ! i =
              (if equals (correct (first ! i)) (correct (second ! i)) then 1 else 0))"
  by (simp add: getNumberOfArguments_def isVariadic_def executeImpl_map)

theorem polygons_equals_rows_witness:
  "(2::nat) \<le> length [polygon_A, polygon_A] \<and>
   (2::nat) \<le> length [polygon_A_reversed, polygon_B] \<and>
   length (executeImpl correct_geometry (=) [polygon_A, polygon_A]
             [polygon_A_reversed, polygon_B] 2) = 2 \<and>
   executeImpl correct_geometry (=) [polygon_A, polygon_A] [polygon_A_reversed, polygon_B] 2 ! 0 = 1 \<and>
   executeImpl correct_geometry (=) [polygon_A, polygon_A] [polygon_A_reversed, polygon_B] 2 ! 1 = 0"
proof -
  have l: "(2::nat) \<le> length [polygon_A, polygon_A]"
          "(2::nat) \<le> length [polygon_A_reversed, polygon_B]"
    by simp_all
  from polygons_equals_rows [OF l, of correct_geometry "(=)"]
  have len: "length (executeImpl correct_geometry (=) [polygon_A, polygon_A]
                       [polygon_A_reversed, polygon_B] 2) = 2"
    and rows: "\<forall>i < 2.
          executeImpl correct_geometry (=) [polygon_A, polygon_A]
            [polygon_A_reversed, polygon_B] 2 ! i =
            (if correct_geometry ([polygon_A, polygon_A] ! i) =
                correct_geometry ([polygon_A_reversed, polygon_B] ! i) then 1 else 0)"
    by blast+
  from rows [rule_format, of 0] have
    "executeImpl correct_geometry (=) [polygon_A, polygon_A] [polygon_A_reversed, polygon_B] 2 ! 0 =
       (if correct_geometry polygon_A = correct_geometry polygon_A_reversed then 1 else 0)"
    by simp
  then have r0:
    "executeImpl correct_geometry (=) [polygon_A, polygon_A] [polygon_A_reversed, polygon_B] 2 ! 0 = 1"
    by (simp add: correct_polygon_A correct_polygon_A_reversed)
  from rows [rule_format, of 1] have
    "executeImpl correct_geometry (=) [polygon_A, polygon_A] [polygon_A_reversed, polygon_B] 2 ! 1 =
       (if correct_geometry polygon_A = correct_geometry polygon_B then 1 else 0)"
    by simp
  then have r1:
    "executeImpl correct_geometry (=) [polygon_A, polygon_A] [polygon_A_reversed, polygon_B] 2 ! 1 = 0"
    by (simp add: correct_polygon_A correct_polygon_B)
  from l len r0 r1 show ?thesis by blast
qed

end
